theory Spec2Isabelle
  imports Main
begin

section \<open>The theme provider of the portfolio site\<close>

text \<open>
  A shallow embedding of \<^verbatim>\<open>ThemeProvider.tsx\<close>: the React component that keeps the
  user's theme preference, resolves it against the operating system's colour scheme and
  marks the document root with the resolved theme. Everything the component touches
  (\<^verbatim>\<open>window\<close>, \<^verbatim>\<open>localStorage\<close>, \<^verbatim>\<open>matchMedia\<close>, the class list of the root
  element, \<^verbatim>\<open>console.warn\<close> and the two React state cells) is a field of one record
  that every function takes and returns.
\<close>

subsection \<open>Data\<close>

text \<open>
  The string literal types \<^verbatim>\<open>'light' | 'dark' | 'system'\<close> and its subtype
  \<^verbatim>\<open>'light' | 'dark'\<close>. One datatype models both, so that "the result is never
  \<^verbatim>\<open>'system'\<close>" is a statement to prove and not a typing convention.
\<close>

datatype theme = Light | Dark | System

definition theme_name :: "theme \<Rightarrow> string" where
  "theme_name t = (case t of Light \<Rightarrow> ''light'' | Dark \<Rightarrow> ''dark'' | System \<Rightarrow> ''system'')"

text \<open>The cast \<^verbatim>\<open>stored as 'light' | 'dark' | 'system'\<close>; the source guards it by
  \<^verbatim>\<open>includes\<close>, and so does every call here.\<close>

definition as_theme :: "string \<Rightarrow> theme" where
  "as_theme s = (if s = ''light'' then Light else if s = ''dark'' then Dark else System)"

text \<open>A thrown JavaScript value: the \<^verbatim>\<open>Error\<close> of \<^verbatim>\<open>useTheme\<close>, or whatever a
  host function throws.\<close>

datatype error = Error string | HostError string

text \<open>
  The two ways of registering a change callback on a \<^verbatim>\<open>MediaQueryList\<close>
  (\<^verbatim>\<open>addEventListener('change', h)\<close> and the older \<^verbatim>\<open>addListener(h)\<close>), and the
  callbacks themselves. \<^verbatim>\<open>handleSystemThemeChange\<close> is a closure created anew by every
  run of the effect: \<open>ThemeHandler n\<close> is the closure of the \<open>n\<close>-th run. \<open>Foreign\<close>
  callbacks belong to other code on the page.
\<close>

datatype registration = Modern | Legacy

datatype handler = ThemeHandler nat | Foreign nat

record media_query_list =
  matches :: bool
  has_addEventListener :: bool
  has_addListener :: bool
  registration_failure :: "error option"
  listeners :: "(registration \<times> handler) list"

record world =
  has_window :: bool
  storage :: "string \<rightharpoonup> string"
  getItem_failure :: "error option"
  setItem_failure :: "error option"
  matchMedia_failure :: "error option"
  mediaQuery :: media_query_list
  classList :: "string list"
  warnings :: "(string \<times> error) list"
  theme :: theme
  resolvedTheme :: theme
  cleanup :: "(registration \<times> handler) option"
  next_handler :: nat

text \<open>
  \<^item> \<open>has_window\<close>: \<^verbatim>\<open>typeof window !== 'undefined'\<close>;
  \<^item> \<open>storage\<close>, \<open>getItem_failure\<close>, \<open>setItem_failure\<close>: \<^verbatim>\<open>localStorage\<close>, and the
    value its \<^verbatim>\<open>getItem\<close> or \<^verbatim>\<open>setItem\<close> throws, if it throws;
  \<^item> \<open>matchMedia_failure\<close>: the value \<^verbatim>\<open>window.matchMedia(...)\<close> throws, if it throws
    (a \<^verbatim>\<open>TypeError\<close> where the function does not exist); \<open>mediaQuery\<close>: the object it
    returns otherwise;
  \<^item> \<open>classList\<close>: \<^verbatim>\<open>document.documentElement.classList\<close>, an ordered set of tokens;
  \<^item> \<open>warnings\<close>: the calls of \<^verbatim>\<open>console.warn\<close>, oldest first;
  \<^item> \<open>theme\<close>, \<open>resolvedTheme\<close>: the two \<^verbatim>\<open>useState\<close> cells;
  \<^item> \<open>cleanup\<close>: the function React holds as the clean-up of the last run of the
    system-change effect (the listener it will remove), \<open>next_handler\<close>: the number of
    handler closures created so far.
\<close>

record props =
  defaultTheme :: theme
  storageKey :: string

subsection \<open>The functions of the component\<close>

definition console_warn :: "string \<Rightarrow> error \<Rightarrow> world \<Rightarrow> world" where
  "console_warn msg e w = w\<lparr>warnings := warnings w @ [(msg, e)]\<rparr>"

definition getSystemTheme :: "world \<Rightarrow> theme \<times> world" where
  "getSystemTheme w =
    (if \<not> has_window w then (Light, w)
     else case matchMedia_failure w of
            None \<Rightarrow> (if matches (mediaQuery w) then Dark else Light, w)
          | Some e \<Rightarrow>
              (Light,
               console_warn ''System theme detection failed, falling back to light theme:'' e w))"

definition getStoredTheme :: "props \<Rightarrow> world \<Rightarrow> theme option \<times> world" where
  "getStoredTheme p w =
    (if \<not> has_window w then (None, w)
     else case getItem_failure w of
            Some e \<Rightarrow> (None, console_warn ''Failed to read theme from localStorage:'' e w)
          | None \<Rightarrow>
              (case storage w (storageKey p) of
                 None \<Rightarrow> (None, w)
               | Some stored \<Rightarrow>
                   if stored \<noteq> [] \<and> stored \<in> set [''light'', ''dark'', ''system'']
                   then (Some (as_theme stored), w)
                   else (None, w)))"

definition saveTheme :: "props \<Rightarrow> theme \<Rightarrow> world \<Rightarrow> world" where
  "saveTheme p newTheme w =
    (if \<not> has_window w then w
     else case setItem_failure w of
            Some e \<Rightarrow> console_warn ''Failed to save theme to localStorage:'' e w
          | None \<Rightarrow> w\<lparr>storage := (storage w)(storageKey p \<mapsto> theme_name newTheme)\<rparr>)"

definition resolveTheme :: "theme \<Rightarrow> world \<Rightarrow> theme \<times> world" where
  "resolveTheme currentTheme w =
    (if currentTheme = System then getSystemTheme w else (currentTheme, w))"

text \<open>
  \<^verbatim>\<open>classList.remove(t1, t2, ...)\<close> and \<^verbatim>\<open>classList.add(t)\<close> of a
  \<^verbatim>\<open>DOMTokenList\<close>: removal takes out every listed token, addition appends the token
  unless it is there already.
\<close>

definition classList_remove :: "string list \<Rightarrow> string list \<Rightarrow> string list" where
  "classList_remove tokens cl = filter (\<lambda>c. c \<notin> set tokens) cl"

definition classList_add :: "string \<Rightarrow> string list \<Rightarrow> string list" where
  "classList_add token cl = (if token \<in> set cl then cl else cl @ [token])"

definition setThemeState :: "theme \<Rightarrow> world \<Rightarrow> world" where
  "setThemeState t w = w\<lparr>theme := t\<rparr>"

definition setResolvedTheme :: "theme \<Rightarrow> world \<Rightarrow> world" where
  "setResolvedTheme t w = w\<lparr>resolvedTheme := t\<rparr>"

text \<open>
  \<^verbatim>\<open>applyTheme\<close> is three statements after its guard. \<open>applyTheme_steps\<close> lists the
  state after each of them (none when there is no window); \<open>applyTheme\<close> is the state
  after the last.
\<close>

definition removeThemeClasses :: "world \<Rightarrow> world" where
  "removeThemeClasses w = w\<lparr>classList := classList_remove [''light'', ''dark''] (classList w)\<rparr>"

definition addThemeClass :: "theme \<Rightarrow> world \<Rightarrow> world" where
  "addThemeClass t w = w\<lparr>classList := classList_add (theme_name t) (classList w)\<rparr>"

definition applyTheme_steps :: "theme \<Rightarrow> world \<Rightarrow> world list" where
  "applyTheme_steps newResolvedTheme w =
    (if \<not> has_window w then []
     else let w1 = removeThemeClasses w;
              w2 = addThemeClass newResolvedTheme w1;
              w3 = setResolvedTheme newResolvedTheme w2
          in [w1, w2, w3])"

definition applyTheme :: "theme \<Rightarrow> world \<Rightarrow> world" where
  "applyTheme newResolvedTheme w = last (w # applyTheme_steps newResolvedTheme w)"

definition setTheme :: "props \<Rightarrow> theme \<Rightarrow> world \<Rightarrow> world" where
  "setTheme p newTheme w =
    (let w1 = setThemeState newTheme w;
         w2 = saveTheme p newTheme w1;
         (newResolvedTheme, w3) = resolveTheme newTheme w2
     in applyTheme newResolvedTheme w3)"

text \<open>
  The initialisation effect. Its \<^verbatim>\<open>try\<close> body is \<open>initialize_body\<close>, its
  \<^verbatim>\<open>catch\<close> block the \<open>Inl\<close> branch of \<open>initialize\<close>. Every function the body calls
  catches its own failures, so the body always ends in \<open>Inr\<close>.
  \<^verbatim>\<open>getStoredTheme() || defaultTheme\<close> takes the default exactly when the stored theme
  is \<^verbatim>\<open>null\<close>: the three theme names are non-empty strings, hence truthy.
\<close>

definition initialize_body :: "props \<Rightarrow> world \<Rightarrow> error + world" where
  "initialize_body p w =
    (let (stored, w1) = getStoredTheme p w;
         storedTheme = (case stored of Some t \<Rightarrow> t | None \<Rightarrow> defaultTheme p);
         (initialResolvedTheme, w2) = resolveTheme storedTheme w1;
         w3 = setThemeState storedTheme w2;
         w4 = setResolvedTheme initialResolvedTheme w3
     in Inr (applyTheme initialResolvedTheme w4))"

definition initialize :: "props \<Rightarrow> world \<Rightarrow> world" where
  "initialize p w =
    (case initialize_body p w of
       Inr w' \<Rightarrow> w'
     | Inl e \<Rightarrow>
         applyTheme Light (setResolvedTheme Light (setThemeState (defaultTheme p)
           (console_warn ''Theme initialization failed, using default theme:'' e w))))"

subsection \<open>Listening to the operating system\<close>

text \<open>
  The callback takes the event's \<^verbatim>\<open>matches\<close> flag.
\<close>

definition handleSystemThemeChange :: "bool \<Rightarrow> world \<Rightarrow> world" where
  "handleSystemThemeChange e_matches w =
    (let newSystemTheme = (if e_matches then Dark else Light);
         w1 = setResolvedTheme newSystemTheme w
     in applyTheme newSystemTheme w1)"

text \<open>
  Registration on the \<^verbatim>\<open>MediaQueryList\<close>: a callback that is already registered is
  not registered twice, and removal takes out the entry that was registered.
\<close>

definition register_listener :: "registration \<times> handler \<Rightarrow> world \<Rightarrow> world" where
  "register_listener l w =
    w\<lparr>mediaQuery := (mediaQuery w)\<lparr>listeners :=
      (if l \<in> set (listeners (mediaQuery w)) then listeners (mediaQuery w)
       else listeners (mediaQuery w) @ [l])\<rparr>\<rparr>"

definition unregister_listener :: "registration \<times> handler \<Rightarrow> world \<Rightarrow> world" where
  "unregister_listener l w =
    w\<lparr>mediaQuery := (mediaQuery w)\<lparr>listeners := filter (\<lambda>x. x \<noteq> l) (listeners (mediaQuery w))\<rparr>\<rparr>"

text \<open>
  The system-change effect, for a render in which the state \<^verbatim>\<open>theme\<close> was \<open>th\<close>. It
  returns the listener its clean-up function will remove (\<open>None\<close> where the source
  returns no clean-up), or \<open>Inl\<close> the value thrown out of the effect: the call of
  \<^verbatim>\<open>window.matchMedia\<close> stands before the \<^verbatim>\<open>try\<close>, the registration inside it.
\<close>

definition systemChangeEffect ::
    "theme \<Rightarrow> world \<Rightarrow> error + ((registration \<times> handler) option \<times> world)" where
  "systemChangeEffect th w =
    (if \<not> has_window w \<or> th \<noteq> System then Inr (None, w)
     else case matchMedia_failure w of
            Some e \<Rightarrow> Inl e
          | None \<Rightarrow>
              (let h = ThemeHandler (next_handler w);
                   w1 = w\<lparr>next_handler := Suc (next_handler w)\<rparr>
               in if has_addEventListener (mediaQuery w1) then
                    (case registration_failure (mediaQuery w1) of
                       Some e \<Rightarrow>
                         Inr (None, console_warn ''Failed to listen for system theme changes:'' e w1)
                     | None \<Rightarrow> Inr (Some (Modern, h), register_listener (Modern, h) w1))
                  else if has_addListener (mediaQuery w1) then
                    (case registration_failure (mediaQuery w1) of
                       Some e \<Rightarrow>
                         Inr (None, console_warn ''Failed to listen for system theme changes:'' e w1)
                     | None \<Rightarrow> Inr (Some (Legacy, h), register_listener (Legacy, h) w1))
                  else Inr (None, w1)))"

subsection \<open>React around the component\<close>

text \<open>
  What React does with the effect whose dependency list is \<^verbatim>\<open>[theme]\<close>: it keeps the
  clean-up that the last run returned; when a render has another \<^verbatim>\<open>theme\<close> than the
  render before it, it calls that clean-up and runs the effect again; on unmount it calls
  the clean-up. An error thrown by an effect ends the session (\<open>Inl\<close>).
\<close>

definition runCleanup :: "world \<Rightarrow> world" where
  "runCleanup w =
    (case cleanup w of
       None \<Rightarrow> w
     | Some l \<Rightarrow> (unregister_listener l w)\<lparr>cleanup := None\<rparr>)"

definition runEffect :: "theme \<Rightarrow> world \<Rightarrow> error + world" where
  "runEffect th w =
    (case systemChangeEffect th w of
       Inl e \<Rightarrow> Inl e
     | Inr (c, w') \<Rightarrow> Inr (w'\<lparr>cleanup := c\<rparr>))"

definition rerender :: "theme \<Rightarrow> world \<Rightarrow> error + world" where
  "rerender previous w =
    (if theme w = previous then Inr w else runEffect (theme w) (runCleanup w))"

text \<open>
  Mounting: the first render has \<^verbatim>\<open>theme = defaultTheme\<close> and
  \<^verbatim>\<open>resolvedTheme = 'light'\<close> (the \<^verbatim>\<open>useState\<close> initial values); both effects run
  with the values of that render, and the state the first effect has set is rendered next.
\<close>

definition mount :: "props \<Rightarrow> world \<Rightarrow> error + world" where
  "mount p w =
    (let w0 = w\<lparr>theme := defaultTheme p, resolvedTheme := Light, cleanup := None\<rparr>;
         w1 = initialize p w0
     in case runEffect (defaultTheme p) w1 of
          Inl e \<Rightarrow> Inl e
        | Inr w2 \<Rightarrow> rerender (defaultTheme p) w2)"

definition unmount :: "world \<Rightarrow> world" where
  "unmount w = runCleanup w"

text \<open>
  The events of a session: a consumer calls \<^verbatim>\<open>setTheme\<close>, or the operating system
  changes its colour scheme, which updates \<^verbatim>\<open>matches\<close> and calls every registered
  callback in order of registration.
\<close>

datatype event = SetTheme theme | OSChange bool

definition call_listener :: "bool \<Rightarrow> registration \<times> handler \<Rightarrow> world \<Rightarrow> world" where
  "call_listener m l w =
    (case snd l of ThemeHandler n \<Rightarrow> handleSystemThemeChange m w | Foreign n \<Rightarrow> w)"

definition osChange :: "bool \<Rightarrow> world \<Rightarrow> world" where
  "osChange m w =
    fold (call_listener m) (listeners (mediaQuery w))
      (w\<lparr>mediaQuery := (mediaQuery w)\<lparr>matches := m\<rparr>\<rparr>)"

definition dispatch :: "props \<Rightarrow> event \<Rightarrow> world \<Rightarrow> error + world" where
  "dispatch p ev w =
    (case ev of
       SetTheme t \<Rightarrow> rerender (theme w) (setTheme p t w)
     | OSChange m \<Rightarrow> Inr (osChange m w))"

fun run :: "props \<Rightarrow> event list \<Rightarrow> world \<Rightarrow> error + world" where
  "run p [] w = Inr w"
| "run p (ev # evs) w =
    (case dispatch p ev w of Inl e \<Rightarrow> Inl e | Inr w' \<Rightarrow> run p evs w')"

definition session :: "props \<Rightarrow> event list \<Rightarrow> world \<Rightarrow> error + world" where
  "session p evs w = (case mount p w of Inl e \<Rightarrow> Inl e | Inr w' \<Rightarrow> run p evs w')"

subsection \<open>The consumer hook\<close>

text \<open>
  \<^verbatim>\<open>useContext(ThemeContext)\<close> gives the value of the nearest enclosing provider, and
  the context's default \<^verbatim>\<open>undefined\<close> where there is none. The providers enclosing the
  calling component are listed innermost first.
\<close>

record context_value =
  ctx_theme :: theme
  ctx_setTheme :: "theme \<Rightarrow> world \<Rightarrow> world"
  ctx_resolvedTheme :: theme

definition contextValue :: "props \<Rightarrow> world \<Rightarrow> context_value" where
  "contextValue p w = \<lparr>ctx_theme = theme w, ctx_setTheme = setTheme p,
     ctx_resolvedTheme = resolvedTheme w\<rparr>"

definition useContext :: "'a list \<Rightarrow> 'a option" where
  "useContext providers = (case providers of [] \<Rightarrow> None | v # outer \<Rightarrow> Some v)"

definition useTheme :: "context_value list \<Rightarrow> error + context_value" where
  "useTheme providers =
    (case useContext providers of
       None \<Rightarrow> Inl (Error ''useTheme must be used within a ThemeProvider'')
     | Some context \<Rightarrow> Inr context)"

subsection \<open>Observations\<close>

text \<open>
  \<open>has_marker t w\<close>: the root element carries the class of theme \<open>t\<close>.
  \<open>detection_warnings t w\<close>: what resolving \<open>t\<close> in \<open>w\<close> writes to the console.
  \<open>subscribed w\<close>: a callback of the component is registered on the media query.
\<close>

definition has_marker :: "theme \<Rightarrow> world \<Rightarrow> bool" where
  "has_marker t w = (theme_name t \<in> set (classList w))"

definition detection_warnings :: "theme \<Rightarrow> world \<Rightarrow> (string \<times> error) list" where
  "detection_warnings t w =
    (if t = System \<and> has_window w
     then (case matchMedia_failure w of
             None \<Rightarrow> []
           | Some e \<Rightarrow> [(''System theme detection failed, falling back to light theme:'', e)])
     else [])"

definition is_theme_handler :: "registration \<times> handler \<Rightarrow> bool" where
  "is_theme_handler l = (case snd l of ThemeHandler n \<Rightarrow> True | Foreign n \<Rightarrow> False)"

definition subscribed :: "world \<Rightarrow> bool" where
  "subscribed w = list_ex is_theme_handler (listeners (mediaQuery w))"

text \<open>
  The bookkeeping of the listener between events: every callback of the component on the
  media query is the one React holds the clean-up for (\<open>owns_listeners\<close>); the
  environment lets a callback be registered (\<open>can_register\<close>); and a clean-up is pending
  exactly when the preference is \<open>System\<close> and registration is possible.
\<close>

definition owns_listeners :: "world \<Rightarrow> bool" where
  "owns_listeners w \<longleftrightarrow>
     (\<forall>l \<in> set (listeners (mediaQuery w)). is_theme_handler l \<longrightarrow> cleanup w = Some l)
     \<and> (\<forall>l. cleanup w = Some l \<longrightarrow> is_theme_handler l \<and> l \<in> set (listeners (mediaQuery w)))"

definition can_register :: "world \<Rightarrow> bool" where
  "can_register w \<longleftrightarrow>
     has_window w
     \<and> (has_addEventListener (mediaQuery w) \<or> has_addListener (mediaQuery w))
     \<and> registration_failure (mediaQuery w) = None"

definition lifecycle_invariant :: "world \<Rightarrow> bool" where
  "lifecycle_invariant w \<longleftrightarrow>
     has_window w \<and> owns_listeners w
     \<and> (cleanup w \<noteq> None \<longleftrightarrow> theme w = System \<and> can_register w)"

text \<open>
  \<open>marker_reflects w\<close>: the root element carries the marker of \<open>resolvedTheme\<close>, which
  is light or dark, and not the other one.
\<close>

definition marker_reflects :: "world \<Rightarrow> bool" where
  "marker_reflects w \<longleftrightarrow>
     resolvedTheme w \<in> {Light, Dark}
     \<and> (\<forall>k \<in> {Light, Dark}. has_marker k w \<longleftrightarrow> k = resolvedTheme w)"

subsection \<open>Example environments\<close>

definition plain_query :: media_query_list where
  "plain_query = \<lparr>matches = True, has_addEventListener = True, has_addListener = True,
     registration_failure = None, listeners = []\<rparr>"

definition browser :: world where
  "browser = \<lparr>has_window = True, storage = Map.empty, getItem_failure = None,
     setItem_failure = None, matchMedia_failure = None, mediaQuery = plain_query,
     classList = [], warnings = [], theme = System, resolvedTheme = Light,
     cleanup = None, next_handler = 0\<rparr>"

definition site_props :: props where
  "site_props = \<lparr>defaultTheme = System, storageKey = ''portfolio-theme''\<rparr>"

definition stored_light :: world where
  "stored_light = browser\<lparr>storage := [''portfolio-theme'' \<mapsto> ''light'']\<rparr>"

definition private_browsing :: world where
  "private_browsing = browser\<lparr>getItem_failure := Some (HostError ''SecurityError''),
     setItem_failure := Some (HostError ''QuotaExceededError'')\<rparr>"

definition bare_query :: media_query_list where
  "bare_query = \<lparr>matches = False, has_addEventListener = False, has_addListener = False,
     registration_failure = None, listeners = []\<rparr>"

definition no_matchMedia :: world where
  "no_matchMedia =
     browser\<lparr>matchMedia_failure := Some (HostError ''TypeError: window.matchMedia is not a function''),
       mediaQuery := bare_query\<rparr>"

definition light_page :: world where
  "light_page = browser\<lparr>classList := [''font-sans'', ''light'']\<rparr>"

section \<open>Basic facts\<close>

lemma site_props_fields [simp]:
  "defaultTheme site_props = System" "storageKey site_props = ''portfolio-theme''"
  by (simp_all add: site_props_def)

lemma plain_query_fields [simp]:
  "matches plain_query" "has_addEventListener plain_query" "has_addListener plain_query"
  "registration_failure plain_query = None" "listeners plain_query = []"
  by (simp_all add: plain_query_def)

lemma browser_fields [simp]:
  "has_window browser" "storage browser = Map.empty" "getItem_failure browser = None"
  "setItem_failure browser = None" "matchMedia_failure browser = None"
  "mediaQuery browser = plain_query" "classList browser = []" "warnings browser = []"
  "theme browser = System" "resolvedTheme browser = Light" "cleanup browser = None"
  "next_handler browser = 0"
  by (simp_all add: browser_def)

lemma stored_light_fields [simp]:
  "has_window stored_light" "storage stored_light = [''portfolio-theme'' \<mapsto> ''light'']"
  "getItem_failure stored_light = None" "setItem_failure stored_light = None"
  "matchMedia_failure stored_light = None" "mediaQuery stored_light = plain_query"
  "classList stored_light = []" "warnings stored_light = []"
  by (simp_all add: stored_light_def)

lemma private_browsing_fields [simp]:
  "has_window private_browsing" "storage private_browsing = Map.empty"
  "getItem_failure private_browsing = Some (HostError ''SecurityError'')"
  "setItem_failure private_browsing = Some (HostError ''QuotaExceededError'')"
  "matchMedia_failure private_browsing = None" "mediaQuery private_browsing = plain_query"
  "classList private_browsing = []" "warnings private_browsing = []"
  by (simp_all add: private_browsing_def)

lemma no_matchMedia_fields [simp]:
  "has_window no_matchMedia" "storage no_matchMedia = Map.empty"
  "getItem_failure no_matchMedia = None" "setItem_failure no_matchMedia = None"
  "matchMedia_failure no_matchMedia =
     Some (HostError ''TypeError: window.matchMedia is not a function'')"
  "classList no_matchMedia = []" "warnings no_matchMedia = []"
  "theme no_matchMedia = System" "cleanup no_matchMedia = None"
  "mediaQuery no_matchMedia = bare_query"
  by (simp_all add: no_matchMedia_def)

lemma bare_query_fields [simp]:
  "\<not> matches bare_query" "\<not> has_addEventListener bare_query" "\<not> has_addListener bare_query"
  "registration_failure bare_query = None" "listeners bare_query = []"
  by (simp_all add: bare_query_def)

lemma light_page_fields [simp]:
  "has_window light_page" "classList light_page = [''font-sans'', ''light'']"
  "storage light_page = Map.empty" "getItem_failure light_page = None"
  "setItem_failure light_page = None" "matchMedia_failure light_page = None"
  "mediaQuery light_page = plain_query" "theme light_page = System"
  "cleanup light_page = None" "next_handler light_page = 0" "warnings light_page = []"
  by (simp_all add: light_page_def)

lemma theme_names [simp]:
  "theme_name Light = ''light''" "theme_name Dark = ''dark''" "theme_name System = ''system''"
  by (simp_all add: theme_name_def)

lemmas component_defs =
  getSystemTheme_def getStoredTheme_def saveTheme_def resolveTheme_def
  setThemeState_def setResolvedTheme_def removeThemeClasses_def addThemeClass_def
  applyTheme_steps_def applyTheme_def setTheme_def initialize_body_def initialize_def
  console_warn_def classList_remove_def classList_add_def

lemma theme_name_inject [simp]: "theme_name a = theme_name b \<longleftrightarrow> a = b"
  by (cases a; cases b) (simp_all add: theme_name_def)

lemma as_theme_name [simp]: "as_theme (theme_name t) = t"
  by (cases t) (simp_all add: theme_name_def as_theme_def)

lemma theme_name_valid [simp]:
  "theme_name t \<noteq> []" "theme_name t \<in> set [''light'', ''dark'', ''system'']"
  by (cases t; simp add: theme_name_def)+

lemma valid_is_theme_name:
  "s \<in> set [''light'', ''dark'', ''system''] \<Longrightarrow> \<exists>t. s = theme_name t"
proof -
  assume "s \<in> set [''light'', ''dark'', ''system'']"
  then consider "s = ''light''" | "s = ''dark''" | "s = ''system''" by auto
  then show ?thesis
  proof cases
    case 1 then have "s = theme_name Light" by (simp add: theme_name_def)
    then show ?thesis ..
  next
    case 2 then have "s = theme_name Dark" by (simp add: theme_name_def)
    then show ?thesis ..
  next
    case 3 then have "s = theme_name System" by (simp add: theme_name_def)
    then show ?thesis ..
  qed
qed

lemma getSystemTheme_not_System: "fst (getSystemTheme w) \<noteq> System"
  by (simp add: getSystemTheme_def split: option.splits)

lemma resolveTheme_not_System: "fst (resolveTheme t w) \<noteq> System"
  by (simp add: resolveTheme_def getSystemTheme_not_System)

lemma applyTheme_window:
  "has_window w \<Longrightarrow> applyTheme t w =
     w\<lparr>classList := classList_add (theme_name t) (classList_remove [''light'', ''dark''] (classList w)),
       resolvedTheme := t\<rparr>"
  by (simp add: component_defs Let_def)

lemma markers_after_apply:
  "t \<noteq> System \<Longrightarrow> t' \<noteq> System \<Longrightarrow>
   theme_name t' \<in> set (classList_add (theme_name t) (classList_remove [''light'', ''dark''] cl))
     \<longleftrightarrow> t' = t"
  by (cases t; cases t') (auto simp: classList_add_def classList_remove_def theme_name_def)


lemma getStoredTheme_failure:
  "has_window w \<Longrightarrow> getItem_failure w = Some e \<Longrightarrow>
   getStoredTheme p w = (None, console_warn ''Failed to read theme from localStorage:'' e w)"
  by (simp add: getStoredTheme_def)

lemma getStoredTheme_valid:
  "has_window w \<Longrightarrow> getItem_failure w = None \<Longrightarrow>
   storage w (storageKey p) = Some (theme_name t) \<Longrightarrow> getStoredTheme p w = (Some t, w)"
  using theme_name_valid [of t] by (simp add: getStoredTheme_def del: theme_name_valid set_simps)

lemma getStoredTheme_invalid:
  assumes "has_window w" "getItem_failure w = None"
    and "\<forall>t. storage w (storageKey p) \<noteq> Some (theme_name t)"
  shows "getStoredTheme p w = (None, w)"
proof (cases "storage w (storageKey p)")
  case None
  with assms show ?thesis by (simp add: getStoredTheme_def)
next
  case (Some s)
  with assms(3) have "\<forall>t. s \<noteq> theme_name t" by simp
  then have "s \<notin> set [''light'', ''dark'', ''system'']"
    using valid_is_theme_name by blast
  with Some assms(1,2) show ?thesis by (simp add: getStoredTheme_def del: set_simps)
qed

lemma getStoredTheme_no_window: "\<not> has_window w \<Longrightarrow> getStoredTheme p w = (None, w)"
  by (simp add: getStoredTheme_def)


lemma getStoredTheme_shape:
  "snd (getStoredTheme p w) = w\<lparr>warnings := warnings (snd (getStoredTheme p w))\<rparr>"
  by (simp add: getStoredTheme_def console_warn_def split: option.splits del: set_simps)

lemma getSystemTheme_shape:
  "snd (getSystemTheme w) = w\<lparr>warnings := warnings (snd (getSystemTheme w))\<rparr>"
  by (simp add: getSystemTheme_def console_warn_def split: option.splits)

lemma resolveTheme_shape:
  "snd (resolveTheme t w) = w\<lparr>warnings := warnings (snd (resolveTheme t w))\<rparr>"
  using getSystemTheme_shape [of w] by (simp add: resolveTheme_def)

lemma saveTheme_shape:
  "saveTheme p t w =
     w\<lparr>warnings := warnings (saveTheme p t w), storage := storage (saveTheme p t w)\<rparr>"
  by (simp add: saveTheme_def console_warn_def split: option.splits)

lemma resolveTheme_ignores [simp]:
  "fst (resolveTheme t (w\<lparr>warnings := ws\<rparr>)) = fst (resolveTheme t w)"
  "fst (resolveTheme t (w\<lparr>storage := st\<rparr>)) = fst (resolveTheme t w)"
  "fst (resolveTheme t (w\<lparr>theme := th\<rparr>)) = fst (resolveTheme t w)"
  by (simp_all add: resolveTheme_def getSystemTheme_def split: option.splits)

lemma initialize_window:
  assumes "has_window w"
  shows "initialize p w =
    (let T = (case fst (getStoredTheme p w) of Some t \<Rightarrow> t | None \<Rightarrow> defaultTheme p);
         R = fst (resolveTheme T w)
     in w\<lparr>warnings := warnings (snd (resolveTheme T (snd (getStoredTheme p w)))),
          theme := T, resolvedTheme := R,
          classList := classList_add (theme_name R)
                         (classList_remove [''light'', ''dark''] (classList w))\<rparr>)"
proof -
  obtain st w1 where g: "getStoredTheme p w = (st, w1)" by (cases "getStoredTheme p w")
  define T where "T = (case st of Some t \<Rightarrow> t | None \<Rightarrow> defaultTheme p)"
  obtain r w2 where r: "resolveTheme T w1 = (r, w2)" by (cases "resolveTheme T w1")
  have w1: "w1 = w\<lparr>warnings := warnings w1\<rparr>"
    using getStoredTheme_shape [of p w] g by simp
  have w2: "w2 = w1\<lparr>warnings := warnings w2\<rparr>"
    using resolveTheme_shape [of T w1] r by simp
  have w2': "w2 = w\<lparr>warnings := warnings w2\<rparr>"
    by (subst w2, subst w1) simp
  have r': "r = fst (resolveTheme T w)"
    using r by (subst (asm) w1) (metis fst_conv resolveTheme_ignores(1))
  have hw: "has_window w2" by (subst w2') (simp add: assms)
  have "initialize p w = applyTheme r (setResolvedTheme r (setThemeState T w2))"
    by (simp add: initialize_def initialize_body_def g r T_def [symmetric] Let_def)
  also have "\<dots> = w2\<lparr>theme := T, resolvedTheme := r,
      classList := classList_add (theme_name r)
                         (classList_remove [''light'', ''dark''] (classList w2))\<rparr>"
    using hw by (simp add: applyTheme_window setResolvedTheme_def setThemeState_def)
  also have "\<dots> = w\<lparr>warnings := warnings w2, theme := T, resolvedTheme := r,
      classList := classList_add (theme_name r)
                         (classList_remove [''light'', ''dark''] (classList w))\<rparr>"
    by (subst w2', subst (2) w2') simp
  finally show ?thesis
    by (simp add: Let_def g r [unfolded T_def] r' T_def)
qed


lemma resolveTheme_snd:
  "snd (resolveTheme t w) = w\<lparr>warnings := warnings w @ detection_warnings t w\<rparr>"
  by (simp add: resolveTheme_def getSystemTheme_def detection_warnings_def console_warn_def
      split: option.splits)

lemma detection_warnings_ignores [simp]:
  "detection_warnings t (w\<lparr>warnings := ws\<rparr>) = detection_warnings t w"
  "detection_warnings t (w\<lparr>storage := st\<rparr>) = detection_warnings t w"
  "detection_warnings t (w\<lparr>theme := th\<rparr>) = detection_warnings t w"
  by (simp_all add: detection_warnings_def)

lemma initialize_window_log:
  assumes "has_window w"
  shows "initialize p w =
    (let T = (case fst (getStoredTheme p w) of Some t \<Rightarrow> t | None \<Rightarrow> defaultTheme p);
         R = fst (resolveTheme T w)
     in w\<lparr>warnings := warnings (snd (getStoredTheme p w)) @ detection_warnings T w,
          theme := T, resolvedTheme := R,
          classList := classList_add (theme_name R)
                         (classList_remove [''light'', ''dark''] (classList w))\<rparr>)"
proof -
  have "detection_warnings T (snd (getStoredTheme p w)) = detection_warnings T w" for T
    by (subst getStoredTheme_shape) simp
  then show ?thesis
    by (simp add: initialize_window [OF assms] Let_def resolveTheme_snd)
qed

lemma saveTheme_ok:
  "has_window w \<Longrightarrow> setItem_failure w = None \<Longrightarrow>
   saveTheme p t w = w\<lparr>storage := (storage w)(storageKey p \<mapsto> theme_name t)\<rparr>"
  by (simp add: saveTheme_def)

lemma saveTheme_failure:
  "has_window w \<Longrightarrow> setItem_failure w = Some e \<Longrightarrow>
   saveTheme p t w = console_warn ''Failed to save theme to localStorage:'' e w"
  by (simp add: saveTheme_def)

lemma setTheme_window:
  assumes "has_window w"
  shows "setTheme p t w =
    (let R = fst (resolveTheme t w)
     in w\<lparr>theme := t, storage := storage (saveTheme p t w),
          warnings := warnings (saveTheme p t w) @ detection_warnings t w,
          resolvedTheme := R,
          classList := classList_add (theme_name R)
                         (classList_remove [''light'', ''dark''] (classList w))\<rparr>)"
proof (cases "setItem_failure w")
  case None
  show ?thesis
    by (simp add: setTheme_def setThemeState_def saveTheme_def None assms Let_def
        split_beta resolveTheme_snd applyTheme_window)
next
  case (Some e)
  show ?thesis
    by (simp add: setTheme_def setThemeState_def saveTheme_def Some assms Let_def
        split_beta resolveTheme_snd applyTheme_window console_warn_def)
qed


lemma resolved_light_or_dark: "fst (resolveTheme t w) \<in> {Light, Dark}"
  using resolveTheme_not_System [of t w] by (cases "fst (resolveTheme t w)") simp_all

lemma initialize_theme:
  "has_window w \<Longrightarrow>
   theme (initialize p w) = (case fst (getStoredTheme p w) of Some t \<Rightarrow> t | None \<Rightarrow> defaultTheme p)"
  by (simp add: initialize_window_log Let_def)

lemma initialize_resolved:
  "has_window w \<Longrightarrow> resolvedTheme (initialize p w) = fst (resolveTheme (theme (initialize p w)) w)"
  by (simp add: initialize_window_log Let_def)

lemma initialize_markers:
  assumes "has_window w" "m \<noteq> System"
  shows "has_marker m (initialize p w) \<longleftrightarrow> m = resolvedTheme (initialize p w)"
  using assms resolveTheme_not_System
  by (simp add: initialize_window_log Let_def has_marker_def markers_after_apply)

lemma initialize_body_returns: "initialize_body p w = Inr (initialize p w)"
  by (simp add: initialize_def initialize_body_def Let_def split_beta)

lemma resolveTheme_literal: "t \<noteq> System \<Longrightarrow> resolveTheme t w = (t, w)"
  by (simp add: resolveTheme_def)

lemma resolveTheme_system_ok:
  "has_window w \<Longrightarrow> matchMedia_failure w = None \<Longrightarrow>
   resolveTheme System w = (if matches (mediaQuery w) then Dark else Light, w)"
  by (simp add: resolveTheme_def getSystemTheme_def)

lemma resolveTheme_system_failure:
  "has_window w \<Longrightarrow> matchMedia_failure w = Some e \<Longrightarrow>
   resolveTheme System w =
     (Light, console_warn ''System theme detection failed, falling back to light theme:'' e w)"
  by (simp add: resolveTheme_def getSystemTheme_def)

section \<open>Properties\<close>

subsection \<open>Resolution\<close>

text \<open>
  Claim C1. For every preference \<open>p\<close> and every colour scheme \<open>v\<close> (light or dark) that
  the operating system reports, resolving \<open>p\<close> gives \<open>p\<close> itself when \<open>p\<close> is not
  \<open>System\<close> and \<open>v\<close> when it is, and changes nothing (it is a pure function of the two).
  In every environment whatsoever the result is \<open>Light\<close> or \<open>Dark\<close>, never \<open>System\<close>.
\<close>

theorem resolveTheme_pure_total:
  "(has_window w \<and> matchMedia_failure w = None \<and> v \<in> {Light, Dark}
      \<and> matches (mediaQuery w) = (v = Dark)
     \<longrightarrow> resolveTheme p w = ((if p = System then v else p), w))
   \<and> fst (resolveTheme p w') \<in> {Light, Dark}"
  by (cases p) (auto simp: resolveTheme_def getSystemTheme_def split: option.splits)

theorem resolveTheme_pure_total_witness:
  "has_window browser \<and> matchMedia_failure browser = None \<and> Dark \<in> {Light, Dark}
     \<and> matches (mediaQuery browser) = (Dark = Dark)
     \<and> resolveTheme System browser = (Dark, browser)
     \<and> resolveTheme Light browser = (Light, browser)"
  using resolveTheme_pure_total [of browser Dark System browser]
        resolveTheme_pure_total [of browser Dark Light browser]
  by (simp add: browser_def plain_query_def)

subsection \<open>Initialisation\<close>

text \<open>
  Claim C2. In a browser (a window exists), for every default preference and every state
  of the storage, the initialisation effect adopts the persisted value when the storage
  can be read and holds the name of one of the three themes under the key, and the
  default otherwise. The state \<open>resolvedTheme\<close> it leaves is the resolution of the
  adopted preference against the operating system's signal, it is \<open>Light\<close> or \<open>Dark\<close>,
  and the root element carries exactly that theme's marker. With nothing persisted and
  the default \<open>System\<close> the result is \<open>System\<close> with the operating system's value; with
  a persisted \<open>Light\<close> or \<open>Dark\<close> it is that value twice, whatever the operating system
  says. (The effect returns nothing: the pair it "returns" is the pair of state cells.)
\<close>

theorem initialize_adopts_resolves_applies:
  assumes "has_window w"
  shows
    "(getItem_failure w = None \<and> storage w (storageKey p) = Some (theme_name t)
        \<longrightarrow> theme (initialize p w) = t)
     \<and> (getItem_failure w \<noteq> None \<or> (\<forall>t'. storage w (storageKey p) \<noteq> Some (theme_name t'))
        \<longrightarrow> theme (initialize p w) = defaultTheme p)
     \<and> resolvedTheme (initialize p w) = fst (resolveTheme (theme (initialize p w)) w)
     \<and> resolvedTheme (initialize p w) \<in> {Light, Dark}
     \<and> (\<forall>m \<in> {Light, Dark}. has_marker m (initialize p w) \<longleftrightarrow> m = resolvedTheme (initialize p w))
     \<and> (getItem_failure w = None \<and> storage w (storageKey p) = None \<and> defaultTheme p = System
          \<and> matchMedia_failure w = None
        \<longrightarrow> theme (initialize p w) = System
          \<and> resolvedTheme (initialize p w) = (if matches (mediaQuery w) then Dark else Light))
     \<and> (getItem_failure w = None \<and> storage w (storageKey p) = Some (theme_name t)
          \<and> t \<in> {Light, Dark}
        \<longrightarrow> theme (initialize p w) = t \<and> resolvedTheme (initialize p w) = t)"
proof -
  have adopt: "theme (initialize p w) = t"
    if "getItem_failure w = None" "storage w (storageKey p) = Some (theme_name t)"
    using that assms by (simp add: initialize_theme getStoredTheme_valid)
  have fallback: "theme (initialize p w) = defaultTheme p"
    if "getItem_failure w \<noteq> None \<or> (\<forall>t'. storage w (storageKey p) \<noteq> Some (theme_name t'))"
  proof (cases "getItem_failure w")
    case (Some e)
    with assms show ?thesis by (simp add: initialize_theme getStoredTheme_failure)
  next
    case None
    with that assms show ?thesis by (simp add: initialize_theme getStoredTheme_invalid)
  qed
  have res: "resolvedTheme (initialize p w) = fst (resolveTheme (theme (initialize p w)) w)"
    using assms by (rule initialize_resolved)
  have valid: "resolvedTheme (initialize p w) \<in> {Light, Dark}"
    by (subst res) (rule resolved_light_or_dark)
  have marks: "\<forall>m \<in> {Light, Dark}. has_marker m (initialize p w) \<longleftrightarrow> m = resolvedTheme (initialize p w)"
    using initialize_markers [OF assms, of Light p] initialize_markers [OF assms, of Dark p]
    by simp
  have p3: "theme (initialize p w) = System
          \<and> resolvedTheme (initialize p w) = (if matches (mediaQuery w) then Dark else Light)"
    if "getItem_failure w = None" "storage w (storageKey p) = None" "defaultTheme p = System"
       "matchMedia_failure w = None"
  proof -
    have "theme (initialize p w) = System"
      using fallback that by simp
    then show ?thesis
      using res that assms by (simp add: resolveTheme_system_ok)
  qed
  have p4: "theme (initialize p w) = t \<and> resolvedTheme (initialize p w) = t"
    if "getItem_failure w = None" "storage w (storageKey p) = Some (theme_name t)" "t \<in> {Light, Dark}"
  proof -
    have "t \<noteq> System" using that(3) by auto
    then show ?thesis using adopt [OF that(1,2)] res by (simp add: resolveTheme_literal)
  qed
  show ?thesis
    using adopt fallback res valid marks p3 p4 by blast
qed

theorem initialize_adopts_resolves_applies_witness:
  "has_window browser \<and> has_window stored_light
   \<and> theme (initialize site_props browser) = System
   \<and> resolvedTheme (initialize site_props browser) = Dark
   \<and> has_marker Dark (initialize site_props browser)
   \<and> theme (initialize site_props stored_light) = Light
   \<and> resolvedTheme (initialize site_props stored_light) = Light
   \<and> has_marker Light (initialize site_props stored_light)
   \<and> \<not> has_marker Dark (initialize site_props stored_light)"
proof -
  note A = initialize_adopts_resolves_applies [of browser site_props Light, simplified]
  note B = initialize_adopts_resolves_applies [of stored_light site_props Light, simplified]
  have a: "theme (initialize site_props browser) = System
      \<and> resolvedTheme (initialize site_props browser) = Dark"
    using A by blast
  have b: "theme (initialize site_props stored_light) = Light
      \<and> resolvedTheme (initialize site_props stored_light) = Light"
    using B by blast
  have am: "has_marker Dark (initialize site_props browser)"
    using A a by metis
  have bm: "has_marker Light (initialize site_props stored_light)
      \<and> \<not> has_marker Dark (initialize site_props stored_light)"
    using B b by (metis theme.distinct(1))
  show ?thesis using a b am bm by simp
qed



lemma setTheme_theme: "has_window w \<Longrightarrow> theme (setTheme p t w) = t"
  by (simp add: setTheme_window Let_def)

lemma setTheme_resolved:
  "has_window w \<Longrightarrow> resolvedTheme (setTheme p t w) = fst (resolveTheme t w)"
  by (simp add: setTheme_window Let_def)

lemma setTheme_markers:
  assumes "has_window w" "m \<noteq> System"
  shows "has_marker m (setTheme p t w) \<longleftrightarrow> m = resolvedTheme (setTheme p t w)"
  using assms resolveTheme_not_System
  by (simp add: setTheme_window Let_def has_marker_def markers_after_apply)

lemma setTheme_storage_ok:
  "has_window w \<Longrightarrow> setItem_failure w = None \<Longrightarrow>
   storage (setTheme p t w) = (storage w)(storageKey p \<mapsto> theme_name t)"
  by (simp add: setTheme_window Let_def saveTheme_ok)

lemma setTheme_warnings_ok:
  "has_window w \<Longrightarrow> setItem_failure w = None \<Longrightarrow>
   warnings (setTheme p t w) = warnings w @ detection_warnings t w"
  by (simp add: setTheme_window Let_def saveTheme_ok)

lemma setTheme_storage_failure:
  "has_window w \<Longrightarrow> setItem_failure w = Some e \<Longrightarrow> storage (setTheme p t w) = storage w"
  by (simp add: setTheme_window Let_def saveTheme_failure console_warn_def)

lemma setTheme_warnings_failure:
  "has_window w \<Longrightarrow> setItem_failure w = Some e \<Longrightarrow>
   warnings (setTheme p t w) =
     warnings w @ [(''Failed to save theme to localStorage:'', e)] @ detection_warnings t w"
  by (simp add: setTheme_window Let_def saveTheme_failure console_warn_def)

subsection \<open>Setting the theme\<close>

text \<open>
  Claim C3. In a browser, for every new preference \<open>t\<close>, \<open>setTheme\<close> sets the state
  \<open>theme\<close> to \<open>t\<close>; it tries to store the name of \<open>t\<close> under the configured key, and
  when the storage throws, the failure is caught, logged as one warning and otherwise
  ignored (the storage keeps its contents); the state \<open>resolvedTheme\<close> becomes the
  resolution of \<open>t\<close>, with \<open>System\<close> resolved against the operating system's current signal;
  that value is \<open>Light\<close> or \<open>Dark\<close> and the root element carries exactly its marker.
  (\<open>setTheme\<close> returns nothing: the resolved theme it "returns" is the state cell.)
\<close>

theorem setTheme_updates_persists_resolves:
  assumes "has_window w"
  shows
    "theme (setTheme p t w) = t
     \<and> (setItem_failure w = None
        \<longrightarrow> storage (setTheme p t w) = (storage w)(storageKey p \<mapsto> theme_name t)
          \<and> warnings (setTheme p t w) = warnings w @ detection_warnings t w)
     \<and> (\<forall>e. setItem_failure w = Some e
        \<longrightarrow> storage (setTheme p t w) = storage w
          \<and> warnings (setTheme p t w) =
              warnings w @ [(''Failed to save theme to localStorage:'', e)]
                @ detection_warnings t w)
     \<and> resolvedTheme (setTheme p t w) = fst (resolveTheme t w)
     \<and> (t \<noteq> System \<longrightarrow> resolvedTheme (setTheme p t w) = t)
     \<and> (t = System \<and> matchMedia_failure w = None
        \<longrightarrow> resolvedTheme (setTheme p t w) = (if matches (mediaQuery w) then Dark else Light))
     \<and> resolvedTheme (setTheme p t w) \<in> {Light, Dark}
     \<and> (\<forall>m \<in> {Light, Dark}. has_marker m (setTheme p t w) \<longleftrightarrow> m = resolvedTheme (setTheme p t w))"
proof -
  note hw = assms
  have c1: "theme (setTheme p t w) = t"
    using hw by (rule setTheme_theme)
  have c2: "setItem_failure w = None
        \<longrightarrow> storage (setTheme p t w) = (storage w)(storageKey p \<mapsto> theme_name t)
          \<and> warnings (setTheme p t w) = warnings w @ detection_warnings t w"
    using hw by (simp add: setTheme_storage_ok setTheme_warnings_ok)
  have c3: "\<forall>e. setItem_failure w = Some e
        \<longrightarrow> storage (setTheme p t w) = storage w
          \<and> warnings (setTheme p t w) =
              warnings w @ [(''Failed to save theme to localStorage:'', e)]
                @ detection_warnings t w"
    using hw by (simp add: setTheme_storage_failure setTheme_warnings_failure)
  have c4: "resolvedTheme (setTheme p t w) = fst (resolveTheme t w)"
    using hw by (rule setTheme_resolved)
  have c5: "t \<noteq> System \<longrightarrow> resolvedTheme (setTheme p t w) = t"
    by (simp add: c4 resolveTheme_literal)
  have c6: "t = System \<and> matchMedia_failure w = None
        \<longrightarrow> resolvedTheme (setTheme p t w) = (if matches (mediaQuery w) then Dark else Light)"
  proof
    assume a: "t = System \<and> matchMedia_failure w = None"
    then have "resolveTheme t w = (if matches (mediaQuery w) then Dark else Light, w)"
      using hw by (simp add: resolveTheme_system_ok)
    then show "resolvedTheme (setTheme p t w) = (if matches (mediaQuery w) then Dark else Light)"
      by (simp add: c4)
  qed
  have c7: "resolvedTheme (setTheme p t w) \<in> {Light, Dark}"
    by (subst c4) (rule resolved_light_or_dark)
  have c8: "\<forall>m \<in> {Light, Dark}. has_marker m (setTheme p t w) \<longleftrightarrow> m = resolvedTheme (setTheme p t w)"
    using setTheme_markers [OF hw, of Light p t] setTheme_markers [OF hw, of Dark p t] by simp
  show ?thesis
    by (intro conjI) (fact c1, fact c2, fact c3, fact c4, fact c5, fact c6, fact c7, fact c8)
qed

theorem setTheme_updates_persists_resolves_witness:
  "has_window browser \<and> has_window private_browsing
   \<and> theme (setTheme site_props Dark browser) = Dark
   \<and> storage (setTheme site_props Dark browser) ''portfolio-theme'' = Some ''dark''
   \<and> resolvedTheme (setTheme site_props Dark browser) = Dark
   \<and> resolvedTheme (setTheme site_props System browser) = Dark
   \<and> has_marker Dark (setTheme site_props Dark browser)
   \<and> \<not> has_marker Light (setTheme site_props Dark browser)
   \<and> storage (setTheme site_props Light private_browsing) = Map.empty
   \<and> warnings (setTheme site_props Light private_browsing) =
        [(''Failed to save theme to localStorage:'', HostError ''QuotaExceededError'')]
   \<and> resolvedTheme (setTheme site_props Light private_browsing) = Light"
proof -
  note A = setTheme_updates_persists_resolves [of browser site_props Dark, simplified]
  note B = setTheme_updates_persists_resolves [of browser site_props System, simplified]
  note C = setTheme_updates_persists_resolves [of private_browsing site_props Light,
      simplified, unfolded detection_warnings_def, simplified]
  have a: "theme (setTheme site_props Dark browser) = Dark
      \<and> storage (setTheme site_props Dark browser) = [''portfolio-theme'' \<mapsto> ''dark'']
      \<and> resolvedTheme (setTheme site_props Dark browser) = Dark"
    using A by blast
  have am: "has_marker Dark (setTheme site_props Dark browser)
      \<and> \<not> has_marker Light (setTheme site_props Dark browser)"
    using A a by (metis theme.distinct(1))
  have b: "resolvedTheme (setTheme site_props System browser) = Dark"
    using B by blast
  have c: "storage (setTheme site_props Light private_browsing) = Map.empty
      \<and> warnings (setTheme site_props Light private_browsing) =
        [(''Failed to save theme to localStorage:'', HostError ''QuotaExceededError'')]
      \<and> resolvedTheme (setTheme site_props Light private_browsing) = Light"
    using C by blast
  show ?thesis using a am b c by simp
qed

subsection \<open>Persistence round trip\<close>

text \<open>
  Claim C4. With a working storage, after \<open>setTheme p t\<close> a reload (an initialisation in
  an environment \<open>w'\<close> that has the storage \<open>setTheme\<close> left, under the same key, with
  any default) adopts the preference \<open>t\<close>, for each of the three preferences.
\<close>

theorem setTheme_initialize_roundtrip:
  assumes "has_window w" "setItem_failure w = None"
    and "has_window w'" "getItem_failure w' = None"
    and "storage w' = storage (setTheme p t w)" "storageKey p' = storageKey p"
  shows "theme (initialize p' w') = t"
proof -
  have "storage w' (storageKey p') = Some (theme_name t)"
    using assms by (simp add: setTheme_storage_ok)
  then have "getStoredTheme p' w' = (Some t, w')"
    using assms(3,4) by (simp add: getStoredTheme_valid)
  then show ?thesis
    using assms(3) by (simp add: initialize_theme)
qed

theorem setTheme_initialize_roundtrip_witness:
  "has_window browser \<and> setItem_failure browser = None
   \<and> getItem_failure (browser\<lparr>storage := storage (setTheme site_props Dark browser)\<rparr>) = None
   \<and> theme (initialize site_props
         (browser\<lparr>storage := storage (setTheme site_props Dark browser)\<rparr>)) = Dark"
  using setTheme_initialize_roundtrip [of browser
      "browser\<lparr>storage := storage (setTheme site_props Dark browser)\<rparr>" site_props Dark site_props]
  by simp

lemma detection_warnings_no_storage_message [simp]:
  "filter (\<lambda>x. fst x = ''Failed to read theme from localStorage:'') (detection_warnings t w) = []"
  "filter (\<lambda>x. fst x = ''Failed to save theme to localStorage:'') (detection_warnings t w) = []"
  by (cases t; cases "has_window w"; cases "matchMedia_failure w";
      simp add: detection_warnings_def)+

lemma initialize_warnings_failure:
  "has_window w \<Longrightarrow> getItem_failure w = Some e \<Longrightarrow>
   warnings (initialize p w) =
     warnings w @ [(''Failed to read theme from localStorage:'', e)]
       @ detection_warnings (defaultTheme p) w"
  by (simp add: initialize_window_log Let_def getStoredTheme_failure console_warn_def)

subsection \<open>Storage failures\<close>

text \<open>
  Claim C5. When the storage throws on reading and on writing, initialisation and
  \<open>setTheme\<close> still end with valid results and nothing is thrown (the \<^verbatim>\<open>try\<close> body of
  the initialisation ends normally): initialisation adopts the default preference, as if
  nothing were persisted; \<open>setTheme\<close> sets the states as usual and leaves the storage
  alone. Each of the two logs its storage warning exactly once: one entry is appended for
  the failed call (followed by the detection warning, if the resolution's query of the
  operating system fails too), so the number of such entries in the log grows by one.
\<close>

theorem storage_failure_resilience:
  assumes "has_window w" "getItem_failure w = Some er" "setItem_failure w = Some ew"
  shows
    "initialize_body p w = Inr (initialize p w)
     \<and> theme (initialize p w) = defaultTheme p
     \<and> resolvedTheme (initialize p w) = fst (resolveTheme (defaultTheme p) w)
     \<and> resolvedTheme (initialize p w) \<in> {Light, Dark}
     \<and> warnings (initialize p w) =
         warnings w @ [(''Failed to read theme from localStorage:'', er)]
           @ detection_warnings (defaultTheme p) w
     \<and> length (filter (\<lambda>x. fst x = ''Failed to read theme from localStorage:'')
                 (warnings (initialize p w)))
         = Suc (length (filter (\<lambda>x. fst x = ''Failed to read theme from localStorage:'')
                 (warnings w)))
     \<and> theme (setTheme p t w) = t
     \<and> resolvedTheme (setTheme p t w) = fst (resolveTheme t w)
     \<and> resolvedTheme (setTheme p t w) \<in> {Light, Dark}
     \<and> storage (setTheme p t w) = storage w
     \<and> warnings (setTheme p t w) =
         warnings w @ [(''Failed to save theme to localStorage:'', ew)]
           @ detection_warnings t w
     \<and> length (filter (\<lambda>x. fst x = ''Failed to save theme to localStorage:'')
                 (warnings (setTheme p t w)))
         = Suc (length (filter (\<lambda>x. fst x = ''Failed to save theme to localStorage:'')
                 (warnings w)))"
proof -
  note hw = assms(1)
  have c1: "initialize_body p w = Inr (initialize p w)"
    by (rule initialize_body_returns)
  have c2: "theme (initialize p w) = defaultTheme p"
    using assms by (simp add: initialize_theme getStoredTheme_failure)
  have c3: "resolvedTheme (initialize p w) = fst (resolveTheme (defaultTheme p) w)"
    using initialize_resolved [OF hw, of p] by (simp add: c2)
  have c4: "resolvedTheme (initialize p w) \<in> {Light, Dark}"
    by (subst c3) (rule resolved_light_or_dark)
  have c5: "warnings (initialize p w) =
         warnings w @ [(''Failed to read theme from localStorage:'', er)]
           @ detection_warnings (defaultTheme p) w"
    using assms(1,2) by (rule initialize_warnings_failure)
  have c6: "length (filter (\<lambda>x. fst x = ''Failed to read theme from localStorage:'')
                 (warnings (initialize p w)))
         = Suc (length (filter (\<lambda>x. fst x = ''Failed to read theme from localStorage:'')
                 (warnings w)))"
    by (simp add: c5)
  have c7: "theme (setTheme p t w) = t"
    using hw by (rule setTheme_theme)
  have c8: "resolvedTheme (setTheme p t w) = fst (resolveTheme t w)"
    using hw by (rule setTheme_resolved)
  have c9: "resolvedTheme (setTheme p t w) \<in> {Light, Dark}"
    by (subst c8) (rule resolved_light_or_dark)
  have c10: "storage (setTheme p t w) = storage w"
    using assms by (simp add: setTheme_storage_failure)
  have c11: "warnings (setTheme p t w) =
         warnings w @ [(''Failed to save theme to localStorage:'', ew)]
           @ detection_warnings t w"
    using assms by (simp add: setTheme_warnings_failure)
  have c12: "length (filter (\<lambda>x. fst x = ''Failed to save theme to localStorage:'')
                 (warnings (setTheme p t w)))
         = Suc (length (filter (\<lambda>x. fst x = ''Failed to save theme to localStorage:'')
                 (warnings w)))"
    by (simp add: c11)
  show ?thesis
    by (intro conjI) (fact c1, fact c2, fact c3, fact c4, fact c5, fact c6, fact c7,
        fact c8, fact c9, fact c10, fact c11, fact c12)
qed

theorem storage_failure_resilience_witness:
  "has_window private_browsing
   \<and> getItem_failure private_browsing = Some (HostError ''SecurityError'')
   \<and> setItem_failure private_browsing = Some (HostError ''QuotaExceededError'')
   \<and> theme (initialize site_props private_browsing) = System
   \<and> resolvedTheme (initialize site_props private_browsing) \<in> {Light, Dark}
   \<and> length (filter (\<lambda>x. fst x = ''Failed to read theme from localStorage:'')
                 (warnings (initialize site_props private_browsing))) = 1
   \<and> theme (setTheme site_props Light private_browsing) = Light
   \<and> storage (setTheme site_props Light private_browsing) = Map.empty
   \<and> length (filter (\<lambda>x. fst x = ''Failed to save theme to localStorage:'')
                 (warnings (setTheme site_props Light private_browsing))) = 1"
proof -
  note A = storage_failure_resilience [of private_browsing "HostError ''SecurityError''"
      "HostError ''QuotaExceededError''" site_props Light, simplified]
  have a: "theme (initialize site_props private_browsing) = System"
    using A by blast
  have b: "resolvedTheme (initialize site_props private_browsing) \<in> {Light, Dark}"
    using A by blast
  have c: "length (filter (\<lambda>x. fst x = ''Failed to read theme from localStorage:'')
                 (warnings (initialize site_props private_browsing))) = 1"
    using A by (metis One_nat_def)
  have d: "theme (setTheme site_props Light private_browsing) = Light
     \<and> storage (setTheme site_props Light private_browsing) = Map.empty"
    using A by blast
  have e: "length (filter (\<lambda>x. fst x = ''Failed to save theme to localStorage:'')
                 (warnings (setTheme site_props Light private_browsing))) = 1"
    using A by (metis One_nat_def)
  show ?thesis using a b c d e by simp
qed

subsection \<open>Failure of the operating system query\<close>

text \<open>
  In a browser where \<^verbatim>\<open>window.matchMedia\<close> throws (or does not exist, which throws a
  \<^verbatim>\<open>TypeError\<close>), resolving \<open>System\<close> logs one warning and gives \<open>Light\<close>, and so
  \<open>setTheme\<close> and the initialisation leave \<open>resolvedTheme = Light\<close> when the preference
  is \<open>System\<close>.
\<close>

lemma resolution_falls_back_to_light:
  assumes "has_window w" "matchMedia_failure w = Some e"
  shows
    "resolveTheme System w =
       (Light, console_warn ''System theme detection failed, falling back to light theme:'' e w)
     \<and> warnings (snd (resolveTheme System w)) =
         warnings w @ [(''System theme detection failed, falling back to light theme:'', e)]
     \<and> resolvedTheme (setTheme p System w) = Light
     \<and> (theme (initialize p w) = System \<longrightarrow> resolvedTheme (initialize p w) = Light)
     \<and> initialize_body p w = Inr (initialize p w)"
proof -
  have c1: "resolveTheme System w =
       (Light, console_warn ''System theme detection failed, falling back to light theme:'' e w)"
    using assms by (rule resolveTheme_system_failure)
  have c2: "warnings (snd (resolveTheme System w)) =
         warnings w @ [(''System theme detection failed, falling back to light theme:'', e)]"
    by (simp add: c1 console_warn_def)
  have c3: "resolvedTheme (setTheme p System w) = Light"
    using assms(1) by (simp add: setTheme_resolved c1)
  have c4: "theme (initialize p w) = System \<longrightarrow> resolvedTheme (initialize p w) = Light"
    using initialize_resolved [OF assms(1), of p] by (simp add: c1)
  have c5: "initialize_body p w = Inr (initialize p w)"
    by (rule initialize_body_returns)
  show ?thesis
    by (intro conjI) (fact c1, fact c2, fact c3, fact c4, fact c5)
qed

lemma handleSystemThemeChange_window:
  "has_window w \<Longrightarrow> handleSystemThemeChange m w =
     w\<lparr>resolvedTheme := (if m then Dark else Light),
       classList := classList_add (theme_name (if m then Dark else Light))
                      (classList_remove [''light'', ''dark''] (classList w))\<rparr>"
  by (simp add: handleSystemThemeChange_def applyTheme_window setResolvedTheme_def Let_def)

lemma handleSystemThemeChange_markers:
  assumes "has_window w" "k \<noteq> System"
  shows "has_marker k (handleSystemThemeChange m w) \<longleftrightarrow> k = resolvedTheme (handleSystemThemeChange m w)"
  using assms
  by (simp add: handleSystemThemeChange_window has_marker_def markers_after_apply
      del: theme_names)

lemma applyTheme_steps_window:
  "has_window w \<Longrightarrow> applyTheme_steps t w =
     [removeThemeClasses w, addThemeClass t (removeThemeClasses w), applyTheme t w]"
  by (simp add: applyTheme_def applyTheme_steps_def Let_def)

lemma removeThemeClasses_no_marker:
  "k \<noteq> System \<Longrightarrow> \<not> has_marker k (removeThemeClasses w)"
  by (cases k) (simp_all add: has_marker_def removeThemeClasses_def classList_remove_def)

lemma addThemeClass_marker:
  "t \<noteq> System \<Longrightarrow> k \<noteq> System \<Longrightarrow>
   has_marker k (addThemeClass t (removeThemeClasses w)) \<longleftrightarrow> k = t"
  by (simp add: has_marker_def addThemeClass_def removeThemeClasses_def markers_after_apply
      del: theme_names)

lemma applyTheme_marker:
  "has_window w \<Longrightarrow> t \<noteq> System \<Longrightarrow> k \<noteq> System \<Longrightarrow>
   has_marker k (applyTheme t w) \<longleftrightarrow> k = t"
  by (simp add: applyTheme_window has_marker_def markers_after_apply del: theme_names)

lemma subscribed_iff:
  "subscribed w \<longleftrightarrow> (\<exists>l \<in> set (listeners (mediaQuery w)). is_theme_handler l)"
  by (simp add: subscribed_def list_ex_iff)

lemma is_theme_handler_simps [simp]:
  "is_theme_handler (r, ThemeHandler n)" "\<not> is_theme_handler (r, Foreign n)"
  by (simp_all add: is_theme_handler_def)

lemma runCleanup_frame [simp]:
  "has_window (runCleanup w) = has_window w"
  "theme (runCleanup w) = theme w"
  "matchMedia_failure (runCleanup w) = matchMedia_failure w"
  "has_addEventListener (mediaQuery (runCleanup w)) = has_addEventListener (mediaQuery w)"
  "has_addListener (mediaQuery (runCleanup w)) = has_addListener (mediaQuery w)"
  "registration_failure (mediaQuery (runCleanup w)) = registration_failure (mediaQuery w)"
  "cleanup (runCleanup w) = None"
  by (simp_all add: runCleanup_def unregister_listener_def split: option.splits)

lemma runCleanup_not_subscribed:
  assumes "owns_listeners w"
  shows "\<not> subscribed (runCleanup w)"
proof (cases "cleanup w")
  case None
  then have "runCleanup w = w" by (simp add: runCleanup_def)
  moreover have "\<not> subscribed w"
    using assms None by (auto simp: owns_listeners_def subscribed_iff)
  ultimately show ?thesis by simp
next
  case (Some l)
  then have "listeners (mediaQuery (runCleanup w)) = filter (\<lambda>x. x \<noteq> l) (listeners (mediaQuery w))"
    by (simp add: runCleanup_def unregister_listener_def)
  then show ?thesis
    using assms Some by (auto simp: owns_listeners_def subscribed_iff)
qed

lemma can_register_runCleanup [simp]: "can_register (runCleanup w) = can_register w"
  by (simp add: can_register_def)


lemma runEffect_skip:
  "\<not> has_window w \<or> th \<noteq> System \<Longrightarrow> runEffect th w = Inr (w\<lparr>cleanup := None\<rparr>)"
  by (auto simp: runEffect_def systemChangeEffect_def)

lemma runEffect_throws:
  "has_window w \<Longrightarrow> matchMedia_failure w = Some e \<Longrightarrow> runEffect System w = Inl e"
  by (simp add: runEffect_def systemChangeEffect_def)

lemma runEffect_modern:
  "has_window w \<Longrightarrow> matchMedia_failure w = None \<Longrightarrow> has_addEventListener (mediaQuery w) \<Longrightarrow>
   registration_failure (mediaQuery w) = None \<Longrightarrow>
   runEffect System w =
     Inr ((register_listener (Modern, ThemeHandler (next_handler w))
            (w\<lparr>next_handler := Suc (next_handler w)\<rparr>))
          \<lparr>cleanup := Some (Modern, ThemeHandler (next_handler w))\<rparr>)"
  by (simp add: runEffect_def systemChangeEffect_def Let_def)

lemma runEffect_legacy:
  "has_window w \<Longrightarrow> matchMedia_failure w = None \<Longrightarrow> \<not> has_addEventListener (mediaQuery w) \<Longrightarrow>
   has_addListener (mediaQuery w) \<Longrightarrow> registration_failure (mediaQuery w) = None \<Longrightarrow>
   runEffect System w =
     Inr ((register_listener (Legacy, ThemeHandler (next_handler w))
            (w\<lparr>next_handler := Suc (next_handler w)\<rparr>))
          \<lparr>cleanup := Some (Legacy, ThemeHandler (next_handler w))\<rparr>)"
  by (simp add: runEffect_def systemChangeEffect_def Let_def)

lemma runEffect_registration_throws:
  "has_window w \<Longrightarrow> matchMedia_failure w = None \<Longrightarrow>
   has_addEventListener (mediaQuery w) \<or> has_addListener (mediaQuery w) \<Longrightarrow>
   registration_failure (mediaQuery w) = Some e \<Longrightarrow>
   runEffect System w =
     Inr ((console_warn ''Failed to listen for system theme changes:'' e
            (w\<lparr>next_handler := Suc (next_handler w)\<rparr>))\<lparr>cleanup := None\<rparr>)"
  by (auto simp: runEffect_def systemChangeEffect_def Let_def)

lemma runEffect_no_api:
  "has_window w \<Longrightarrow> matchMedia_failure w = None \<Longrightarrow> \<not> has_addEventListener (mediaQuery w) \<Longrightarrow>
   \<not> has_addListener (mediaQuery w) \<Longrightarrow>
   runEffect System w = Inr (w\<lparr>next_handler := Suc (next_handler w), cleanup := None\<rparr>)"
  by (simp add: runEffect_def systemChangeEffect_def Let_def)

lemma runEffect_cases:
  assumes "runEffect th w = Inr w'"
  obtains
    (skip) "\<not> (th = System \<and> can_register w)"
      "listeners (mediaQuery w') = listeners (mediaQuery w)" "cleanup w' = None"
  | (registered) r where "th = System" "can_register w"
      "listeners (mediaQuery w') =
         (if (r, ThemeHandler (next_handler w)) \<in> set (listeners (mediaQuery w))
          then listeners (mediaQuery w)
          else listeners (mediaQuery w) @ [(r, ThemeHandler (next_handler w))])"
      "cleanup w' = Some (r, ThemeHandler (next_handler w))"
proof (cases "\<not> has_window w \<or> th \<noteq> System")
  case True
  then have "w' = w\<lparr>cleanup := None\<rparr>" using assms by (simp add: runEffect_skip)
  with True show ?thesis by (intro skip) (auto simp: can_register_def)
next
  case False
  then have hw: "has_window w" and th: "th = System" by auto
  from assms th hw have mm: "matchMedia_failure w = None"
    by (cases "matchMedia_failure w") (simp_all add: runEffect_throws)
  show ?thesis
  proof (cases "registration_failure (mediaQuery w)")
    case (Some e)
    show ?thesis
    proof (cases "has_addEventListener (mediaQuery w) \<or> has_addListener (mediaQuery w)")
      case True
      then have "w' = (console_warn ''Failed to listen for system theme changes:'' e
            (w\<lparr>next_handler := Suc (next_handler w)\<rparr>))\<lparr>cleanup := None\<rparr>"
        using assms th hw mm Some by (simp add: runEffect_registration_throws)
      with Some show ?thesis by (intro skip) (simp_all add: can_register_def console_warn_def)
    next
      case False
      then have "w' = w\<lparr>next_handler := Suc (next_handler w), cleanup := None\<rparr>"
        using assms th hw mm by (simp add: runEffect_no_api)
      with False show ?thesis by (intro skip) (simp_all add: can_register_def)
    qed
  next
    case None
    show ?thesis
    proof (cases "has_addEventListener (mediaQuery w)")
      case True
      then have "w' = (register_listener (Modern, ThemeHandler (next_handler w))
            (w\<lparr>next_handler := Suc (next_handler w)\<rparr>))
          \<lparr>cleanup := Some (Modern, ThemeHandler (next_handler w))\<rparr>"
        using assms th hw mm None by (simp add: runEffect_modern)
      with True None hw th show ?thesis
        by (intro registered [of Modern]) (simp_all add: can_register_def register_listener_def)
    next
      case noModern: False
      show ?thesis
      proof (cases "has_addListener (mediaQuery w)")
        case True
        then have "w' = (register_listener (Legacy, ThemeHandler (next_handler w))
            (w\<lparr>next_handler := Suc (next_handler w)\<rparr>))
          \<lparr>cleanup := Some (Legacy, ThemeHandler (next_handler w))\<rparr>"
          using assms th hw mm None noModern by (simp add: runEffect_legacy)
        with True None hw th show ?thesis
          by (intro registered [of Legacy]) (simp_all add: can_register_def register_listener_def)
      next
        case False
        then have "w' = w\<lparr>next_handler := Suc (next_handler w), cleanup := None\<rparr>"
          using assms th hw mm noModern by (simp add: runEffect_no_api)
        with False noModern show ?thesis by (intro skip) (simp_all add: can_register_def)
      qed
    qed
  qed
qed


lemma runEffect_frame:
  assumes "runEffect th w = Inr w'"
  shows "has_window w' = has_window w" "theme w' = theme w"
    "matchMedia_failure w' = matchMedia_failure w"
    "has_addEventListener (mediaQuery w') = has_addEventListener (mediaQuery w)"
    "has_addListener (mediaQuery w') = has_addListener (mediaQuery w)"
    "registration_failure (mediaQuery w') = registration_failure (mediaQuery w)"
    "storage w' = storage w" "resolvedTheme w' = resolvedTheme w" "classList w' = classList w"
  using assms
  by (auto simp: runEffect_def systemChangeEffect_def Let_def register_listener_def
      console_warn_def split: if_splits option.splits)

lemma runEffect_can_register:
  "runEffect th w = Inr w' \<Longrightarrow> can_register w' = can_register w"
  by (simp add: can_register_def runEffect_frame)

lemma runEffect_establishes:
  assumes "\<not> subscribed w" "runEffect th w = Inr w'"
  shows "owns_listeners w'" "cleanup w' \<noteq> None \<longleftrightarrow> th = System \<and> can_register w'"
proof -
  from assms(2) have "owns_listeners w' \<and> (cleanup w' \<noteq> None \<longleftrightarrow> th = System \<and> can_register w)"
  proof (cases rule: runEffect_cases)
    case skip
    with assms(1) show ?thesis by (auto simp: owns_listeners_def subscribed_iff)
  next
    case (registered r)
    with assms(1) show ?thesis by (auto simp: owns_listeners_def subscribed_iff)
  qed
  then show "owns_listeners w'" "cleanup w' \<noteq> None \<longleftrightarrow> th = System \<and> can_register w'"
    using runEffect_can_register [OF assms(2)] by simp_all
qed

lemma rerender_invariant:
  assumes "has_window w" "owns_listeners w"
    and "theme w = previous \<Longrightarrow> (cleanup w \<noteq> None \<longleftrightarrow> theme w = System \<and> can_register w)"
    and "rerender previous w = Inr w'"
  shows "lifecycle_invariant w'"
proof (cases "theme w = previous")
  case True
  then have "w' = w" using assms(4) by (simp add: rerender_def)
  with True assms(1-3) show ?thesis by (simp add: lifecycle_invariant_def)
next
  case False
  then have run: "runEffect (theme w) (runCleanup w) = Inr w'"
    using assms(4) by (simp add: rerender_def)
  have ns: "\<not> subscribed (runCleanup w)"
    using assms(2) by (rule runCleanup_not_subscribed)
  have "has_window w'" "theme w' = theme w"
    using runEffect_frame(1,2) [OF run] assms(1) by simp_all
  then show ?thesis
    using runEffect_establishes [OF ns run] by (simp add: lifecycle_invariant_def)
qed

lemma setTheme_frame:
  assumes "has_window w"
  shows "has_window (setTheme p t w)" "mediaQuery (setTheme p t w) = mediaQuery w"
    "cleanup (setTheme p t w) = cleanup w" "matchMedia_failure (setTheme p t w) = matchMedia_failure w"
  using assms by (simp_all add: setTheme_window Let_def)

lemma initialize_frame:
  assumes "has_window w"
  shows "has_window (initialize p w)" "mediaQuery (initialize p w) = mediaQuery w"
    "cleanup (initialize p w) = cleanup w" "matchMedia_failure (initialize p w) = matchMedia_failure w"
  using assms by (simp_all add: initialize_window_log Let_def)

lemma call_listener_cases:
  "has_window w \<Longrightarrow>
   call_listener m l w = (if is_theme_handler l then handleSystemThemeChange m w else w)"
  by (cases l; cases "snd l") (simp_all add: call_listener_def is_theme_handler_def)

lemma fold_call_listener_frame:
  "has_window w \<Longrightarrow>
   has_window (fold (call_listener m) ls w)
   \<and> theme (fold (call_listener m) ls w) = theme w
   \<and> storage (fold (call_listener m) ls w) = storage w
   \<and> mediaQuery (fold (call_listener m) ls w) = mediaQuery w
   \<and> cleanup (fold (call_listener m) ls w) = cleanup w
   \<and> warnings (fold (call_listener m) ls w) = warnings w"
proof (induction ls arbitrary: w)
  case Nil
  then show ?case by simp
next
  case (Cons l ls)
  let ?w = "call_listener m l w"
  have "has_window ?w \<and> theme ?w = theme w \<and> storage ?w = storage w
     \<and> mediaQuery ?w = mediaQuery w \<and> cleanup ?w = cleanup w \<and> warnings ?w = warnings w"
    using Cons.prems by (simp add: call_listener_cases handleSystemThemeChange_window)
  with Cons.IH [of ?w] show ?case by simp
qed

lemma fold_call_listener_resolved:
  assumes "has_window w"
    and "list_ex is_theme_handler ls \<or>
      (resolvedTheme w = (if m then Dark else Light)
       \<and> (\<forall>k \<in> {Light, Dark}. has_marker k w \<longleftrightarrow> k = (if m then Dark else Light)))"
  shows "resolvedTheme (fold (call_listener m) ls w) = (if m then Dark else Light)
     \<and> (\<forall>k \<in> {Light, Dark}. has_marker k (fold (call_listener m) ls w)
            \<longleftrightarrow> k = (if m then Dark else Light))"
  using assms
proof (induction ls arbitrary: w)
  case Nil
  then show ?case by simp
next
  case (Cons l ls)
  let ?w = "call_listener m l w"
  have hw: "has_window ?w"
    using Cons.prems(1) by (simp add: call_listener_cases handleSystemThemeChange_window)
  have "list_ex is_theme_handler ls \<or>
      (resolvedTheme ?w = (if m then Dark else Light)
       \<and> (\<forall>k \<in> {Light, Dark}. has_marker k ?w \<longleftrightarrow> k = (if m then Dark else Light)))"
  proof (cases "is_theme_handler l")
    case True
    then have eq: "?w = handleSystemThemeChange m w"
      using Cons.prems(1) by (simp add: call_listener_cases)
    have "resolvedTheme ?w = (if m then Dark else Light)"
      using Cons.prems(1) by (simp add: eq handleSystemThemeChange_window)
    moreover have "\<forall>k \<in> {Light, Dark}. has_marker k ?w \<longleftrightarrow> k = resolvedTheme ?w"
      unfolding eq
      using handleSystemThemeChange_markers [OF Cons.prems(1), of Light m]
        handleSystemThemeChange_markers [OF Cons.prems(1), of Dark m] by simp
    ultimately show ?thesis by simp
  next
    case False
    then have "?w = w" using Cons.prems(1) by (simp add: call_listener_cases)
    with False Cons.prems(2) show ?thesis by simp
  qed
  with Cons.IH [OF hw] show ?case by simp
qed


lemma osChange_frame:
  assumes "has_window w"
  shows "has_window (osChange m w)" "theme (osChange m w) = theme w"
    "storage (osChange m w) = storage w" "cleanup (osChange m w) = cleanup w"
    "warnings (osChange m w) = warnings w"
    "mediaQuery (osChange m w) = (mediaQuery w)\<lparr>matches := m\<rparr>"
  using fold_call_listener_frame [of "w\<lparr>mediaQuery := (mediaQuery w)\<lparr>matches := m\<rparr>\<rparr>" m
      "listeners (mediaQuery w)"] assms
  by (simp_all add: osChange_def)

lemma osChange_resolved:
  assumes "has_window w" "subscribed w"
  shows "resolvedTheme (osChange m w) = (if m then Dark else Light)"
    "\<forall>k \<in> {Light, Dark}. has_marker k (osChange m w) \<longleftrightarrow> k = (if m then Dark else Light)"
  using fold_call_listener_resolved [of "w\<lparr>mediaQuery := (mediaQuery w)\<lparr>matches := m\<rparr>\<rparr>"
      "listeners (mediaQuery w)" m] assms
  by (simp_all add: osChange_def subscribed_def)

lemma osChange_invariant:
  assumes "lifecycle_invariant w"
  shows "lifecycle_invariant (osChange m w)"
proof -
  have hw: "has_window w" using assms by (simp add: lifecycle_invariant_def)
  note f = osChange_frame [OF hw, of m]
  show ?thesis
    using assms by (simp add: lifecycle_invariant_def owns_listeners_def can_register_def f)
qed

lemma invariant_subscribed:
  "lifecycle_invariant w \<Longrightarrow> subscribed w \<longleftrightarrow> theme w = System \<and> can_register w"
  by (auto simp: lifecycle_invariant_def owns_listeners_def subscribed_iff)

lemma dispatch_invariant:
  assumes "lifecycle_invariant w" "dispatch p ev w = Inr w'"
  shows "lifecycle_invariant w'"
proof (cases ev)
  case (OSChange m)
  then have "w' = osChange m w" using assms(2) by (simp add: dispatch_def)
  then show ?thesis using assms(1) by (simp add: osChange_invariant)
next
  case (SetTheme t)
  have hw: "has_window w" using assms(1) by (simp add: lifecycle_invariant_def)
  note f = setTheme_frame [OF hw, of p t]
  have r: "rerender (theme w) (setTheme p t w) = Inr w'"
    using assms(2) SetTheme by (simp add: dispatch_def)
  have o: "owns_listeners (setTheme p t w)"
    using assms(1) by (simp add: lifecycle_invariant_def owns_listeners_def f)
  have c: "cleanup (setTheme p t w) \<noteq> None
      \<longleftrightarrow> theme (setTheme p t w) = System \<and> can_register (setTheme p t w)"
    if "theme (setTheme p t w) = theme w"
    using assms(1) that by (simp add: lifecycle_invariant_def can_register_def f)
  show ?thesis
    using rerender_invariant [OF f(1) o c r] by simp
qed

lemma run_invariant:
  "lifecycle_invariant w \<Longrightarrow> run p evs w = Inr w' \<Longrightarrow> lifecycle_invariant w'"
proof (induction evs arbitrary: w)
  case Nil
  then show ?case by simp
next
  case (Cons ev evs)
  from Cons.prems(2) obtain w1 where d: "dispatch p ev w = Inr w1" and r: "run p evs w1 = Inr w'"
    by (cases "dispatch p ev w") simp_all
  show ?case
    using Cons.IH [OF dispatch_invariant [OF Cons.prems(1) d] r] .
qed

lemma mount_invariant:
  assumes "has_window w" "\<not> subscribed w" "mount p w = Inr w'"
  shows "lifecycle_invariant w'"
proof -
  define w0 where "w0 = w\<lparr>theme := defaultTheme p, resolvedTheme := Light, cleanup := None\<rparr>"
  define w1 where "w1 = initialize p w0"
  have hw0: "has_window w0" using assms(1) by (simp add: w0_def)
  note f = initialize_frame [OF hw0, of p]
  from assms(3) obtain w2 where e: "runEffect (defaultTheme p) w1 = Inr w2"
      and r: "rerender (defaultTheme p) w2 = Inr w'"
    by (cases "runEffect (defaultTheme p) w1") (simp_all add: mount_def Let_def w0_def w1_def)
  have "mediaQuery w1 = mediaQuery w"
    using f(2) by (simp add: w1_def w0_def)
  then have ns: "\<not> subscribed w1"
    using assms(2) by (simp add: subscribed_def)
  have hw2: "has_window w2"
    using runEffect_frame(1) [OF e] f(1) by (simp add: w1_def)
  note est = runEffect_establishes [OF ns e]
  have c: "cleanup w2 \<noteq> None \<longleftrightarrow> theme w2 = System \<and> can_register w2"
    if "theme w2 = defaultTheme p"
    using est(2) that by simp
  show ?thesis
    using rerender_invariant [OF hw2 est(1) c r] by simp
qed

lemma session_invariant:
  assumes "has_window w" "\<not> subscribed w" "session p evs w = Inr w'"
  shows "lifecycle_invariant w'"
proof -
  from assms(3) obtain w1 where m: "mount p w = Inr w1" and r: "run p evs w1 = Inr w'"
    by (cases "mount p w") (simp_all add: session_def)
  show ?thesis
    using run_invariant [OF mount_invariant [OF assms(1,2) m] r] .
qed

text \<open>
  Where \<^verbatim>\<open>window.matchMedia\<close> works, no effect throws: every session reaches a state.
\<close>

lemma runEffect_returns:
  "matchMedia_failure w = None \<Longrightarrow> \<exists>w'. runEffect th w = Inr w'"
  by (simp add: runEffect_def systemChangeEffect_def Let_def split: option.splits)

lemma osChange_matchMedia_failure:
  assumes "has_window w"
  shows "matchMedia_failure (osChange m w) = matchMedia_failure w"
proof -
  have "matchMedia_failure (fold (call_listener m) ls v) = matchMedia_failure v"
    if "has_window v" for ls v
    using that
  proof (induction ls arbitrary: v)
    case Nil
    then show ?case by simp
  next
    case (Cons l ls)
    have "has_window (call_listener m l v)"
      "matchMedia_failure (call_listener m l v) = matchMedia_failure v"
      using Cons.prems by (simp_all add: call_listener_cases handleSystemThemeChange_window)
    with Cons.IH [of "call_listener m l v"] show ?case by simp
  qed
  then show ?thesis using assms by (simp add: osChange_def)
qed

lemma rerender_returns:
  assumes "matchMedia_failure w = None"
  shows "\<exists>w'. rerender previous w = Inr w'"
  using runEffect_returns [of "runCleanup w" "theme w"] assms by (simp add: rerender_def)

lemma rerender_frame:
  assumes "rerender previous w = Inr w'"
  shows "has_window w' = has_window w" "matchMedia_failure w' = matchMedia_failure w"
proof -
  have "has_window w' = has_window w \<and> matchMedia_failure w' = matchMedia_failure w"
  proof (cases "theme w = previous")
    case True
    with assms show ?thesis by (simp add: rerender_def)
  next
    case False
    with assms have "runEffect (theme w) (runCleanup w) = Inr w'" by (simp add: rerender_def)
    from runEffect_frame(1,3) [OF this] show ?thesis by simp
  qed
  then show "has_window w' = has_window w" "matchMedia_failure w' = matchMedia_failure w"
    by simp_all
qed

lemma dispatch_returns:
  assumes "has_window w" "matchMedia_failure w = None"
  shows "\<exists>w'. dispatch p ev w = Inr w' \<and> has_window w' \<and> matchMedia_failure w' = None"
proof (cases ev)
  case (OSChange m)
  with assms show ?thesis
    by (simp add: dispatch_def osChange_frame osChange_matchMedia_failure)
next
  case (SetTheme t)
  note f = setTheme_frame [OF assms(1), of p t]
  obtain w' where r: "rerender (theme w) (setTheme p t w) = Inr w'"
    using rerender_returns [of "setTheme p t w" "theme w"] f(4) assms(2) by auto
  from rerender_frame [OF r] f assms show ?thesis
    by (simp add: dispatch_def SetTheme r)
qed

lemma run_returns:
  "has_window w \<Longrightarrow> matchMedia_failure w = None \<Longrightarrow> \<exists>w'. run p evs w = Inr w'"
proof (induction evs arbitrary: w)
  case Nil
  then show ?case by simp
next
  case (Cons ev evs)
  from dispatch_returns [OF Cons.prems, of p ev] obtain w1 where
    "dispatch p ev w = Inr w1" "has_window w1" "matchMedia_failure w1 = None" by blast
  with Cons.IH [of w1] show ?case by simp
qed

lemma session_returns:
  assumes "has_window w" "matchMedia_failure w = None"
  shows "\<exists>w'. session p evs w = Inr w'"
proof -
  let ?w0 = "w\<lparr>theme := defaultTheme p, resolvedTheme := Light, cleanup := None\<rparr>"
  have hw0: "has_window ?w0" using assms(1) by simp
  note f = initialize_frame [OF hw0, of p]
  have mm: "matchMedia_failure (initialize p ?w0) = None" using f(4) assms(2) by simp
  obtain w2 where e: "runEffect (defaultTheme p) (initialize p ?w0) = Inr w2"
    using runEffect_returns [OF mm] by blast
  have w2: "has_window w2" "matchMedia_failure w2 = None"
    using runEffect_frame(1,3) [OF e] f(1) mm by simp_all
  obtain w3 where r: "rerender (defaultTheme p) w2 = Inr w3"
    using rerender_returns [OF w2(2)] by blast
  have w3: "has_window w3" "matchMedia_failure w3 = None"
    using rerender_frame [OF r] w2 by simp_all
  have "mount p w = Inr w3"
    by (simp add: mount_def Let_def e r)
  with run_returns [OF w3, of p evs] show ?thesis
    by (simp add: session_def)
qed

subsection \<open>Changes of the operating system's colour scheme\<close>

text \<open>
  Claim C8. Take any session in a browser: the component is mounted on a page that has
  none of its callbacks registered, and any sequence of \<open>setTheme\<close> calls and colour
  scheme changes follows without an effect throwing. In the state reached, a callback of
  the component is registered only if the preference is \<open>System\<close>, and it is registered
  whenever the preference is \<open>System\<close> and the media query offers a registration method
  that does not throw. While it is registered, a change event sets \<open>resolvedTheme\<close> to the
  new value of the operating system and marks the root element with it. A change event
  never changes the preference, the storage or the registration.
\<close>

theorem system_listener_while_system:
  assumes "has_window w0" "\<not> subscribed w0" "session p evs w0 = Inr w"
  shows
    "(subscribed w \<longrightarrow> theme w = System)
     \<and> (theme w = System
          \<and> (has_addEventListener (mediaQuery w) \<or> has_addListener (mediaQuery w))
          \<and> registration_failure (mediaQuery w) = None
        \<longrightarrow> subscribed w)
     \<and> (subscribed w
        \<longrightarrow> resolvedTheme (osChange m w) = (if m then Dark else Light)
          \<and> (\<forall>k \<in> {Light, Dark}.
                has_marker k (osChange m w) \<longleftrightarrow> k = (if m then Dark else Light)))
     \<and> theme (osChange m w) = theme w
     \<and> storage (osChange m w) = storage w
     \<and> (subscribed (osChange m w) \<longleftrightarrow> subscribed w)"
proof -
  have inv: "lifecycle_invariant w"
    using assms by (rule session_invariant)
  then have hw: "has_window w" by (simp add: lifecycle_invariant_def)
  note sub = invariant_subscribed [OF inv]
  have c1: "subscribed w \<longrightarrow> theme w = System"
    by (simp add: sub)
  have c2: "theme w = System
          \<and> (has_addEventListener (mediaQuery w) \<or> has_addListener (mediaQuery w))
          \<and> registration_failure (mediaQuery w) = None
        \<longrightarrow> subscribed w"
    using hw by (simp add: sub can_register_def)
  have c3: "subscribed w
        \<longrightarrow> resolvedTheme (osChange m w) = (if m then Dark else Light)
          \<and> (\<forall>k \<in> {Light, Dark}.
                has_marker k (osChange m w) \<longleftrightarrow> k = (if m then Dark else Light))"
    using osChange_resolved [OF hw, of m] by blast
  have c4: "theme (osChange m w) = theme w"
    using hw by (rule osChange_frame)
  have c5: "storage (osChange m w) = storage w"
    using hw by (rule osChange_frame)
  have c6: "subscribed (osChange m w) \<longleftrightarrow> subscribed w"
    using hw by (simp add: subscribed_def osChange_frame)
  show ?thesis
    by (intro conjI) (fact c1, fact c2, fact c3, fact c4, fact c5, fact c6)
qed


lemma browser_session:
  "\<exists>w. session site_props [] browser = Inr w \<and> theme w = System
     \<and> has_addEventListener (mediaQuery w) \<and> registration_failure (mediaQuery w) = None
     \<and> storage w = Map.empty"
  by (simp add: session_def mount_def Let_def initialize_window_log getStoredTheme_invalid
      resolveTheme_system_ok detection_warnings_def rerender_def runEffect_def
      systemChangeEffect_def register_listener_def)

theorem system_listener_while_system_witness:
  "has_window browser \<and> \<not> subscribed browser
   \<and> (\<exists>w. session site_props [] browser = Inr w
        \<and> subscribed w \<and> theme w = System
        \<and> resolvedTheme (osChange False w) = Light
        \<and> has_marker Light (osChange False w) \<and> \<not> has_marker Dark (osChange False w)
        \<and> theme (osChange False w) = System
        \<and> storage (osChange False w) = Map.empty)"
proof -
  have hw: "has_window browser" and ns: "\<not> subscribed browser"
    by (simp_all add: subscribed_def)
  obtain w where s: "session site_props [] browser = Inr w" and t: "theme w = System"
    and cap: "has_addEventListener (mediaQuery w)" "registration_failure (mediaQuery w) = None"
    and st: "storage w = Map.empty"
    using browser_session by blast
  note A = system_listener_while_system [OF hw ns s, of False]
  have sub: "subscribed w"
    using A t cap by blast
  have r: "resolvedTheme (osChange False w) = Light"
    using A sub by simp
  have m: "has_marker Light (osChange False w) \<and> \<not> has_marker Dark (osChange False w)"
    using A sub by simp
  have f: "theme (osChange False w) = System \<and> storage (osChange False w) = Map.empty"
    using A t st by simp
  show ?thesis
    using hw ns s sub t r m f by blast
qed


lemma osChange_not_subscribed:
  assumes "has_window w" "\<not> subscribed w"
  shows "osChange m w = w\<lparr>mediaQuery := (mediaQuery w)\<lparr>matches := m\<rparr>\<rparr>"
proof -
  have "fold (call_listener m) ls v = v" if "\<not> list_ex is_theme_handler ls" "has_window v" for ls v
    using that by (induction ls arbitrary: v) (simp_all add: call_listener_cases)
  then show ?thesis
    using assms by (simp add: osChange_def subscribed_def)
qed

lemma unsubscribe_removes_registered_listener:
  assumes "runEffect System w = Inr w'"
    and "\<forall>r. (r, ThemeHandler (next_handler w)) \<notin> set (listeners (mediaQuery w))"
  shows "listeners (mediaQuery (unmount w')) = listeners (mediaQuery w)"
  using assms(1)
proof (cases rule: runEffect_cases)
  case skip
  then show ?thesis by (simp add: unmount_def runCleanup_def)
next
  case (registered r)
  have "filter (\<lambda>x. x \<noteq> l) (ls @ [l]) = ls" if "l \<notin> set ls" for l :: "registration \<times> handler" and ls
    using that by (induction ls) auto
  with registered assms(2) show ?thesis
    by (simp add: unmount_def runCleanup_def unregister_listener_def)
qed

lemma unsubscribed_ignores_os_changes:
  assumes "has_window w" "owns_listeners w"
  shows "resolvedTheme (osChange m (unmount w)) = resolvedTheme w"
    "classList (osChange m (unmount w)) = classList w"
proof -
  have ns: "\<not> subscribed (unmount w)"
    using assms(2) by (simp add: unmount_def runCleanup_not_subscribed)
  have hw: "has_window (unmount w)"
    using assms(1) by (simp add: unmount_def)
  have "resolvedTheme (unmount w) = resolvedTheme w" "classList (unmount w) = classList w"
    by (simp_all add: unmount_def runCleanup_def unregister_listener_def split: option.splits)
  then show "resolvedTheme (osChange m (unmount w)) = resolvedTheme w"
    "classList (osChange m (unmount w)) = classList w"
    by (simp_all add: osChange_not_subscribed [OF hw ns])
qed

lemma marker_reflects_cong:
  "classList w' = classList w \<Longrightarrow> resolvedTheme w' = resolvedTheme w \<Longrightarrow>
   marker_reflects w' = marker_reflects w"
  by (simp add: marker_reflects_def has_marker_def)

lemma applyTheme_marker_reflects:
  assumes "has_window w" "t \<in> {Light, Dark}"
  shows "marker_reflects (applyTheme t w)"
proof -
  have t: "t \<noteq> System" using assms(2) by auto
  have "resolvedTheme (applyTheme t w) = t"
    using assms(1) by (simp add: applyTheme_window)
  moreover have "has_marker k (applyTheme t w) \<longleftrightarrow> k = t" if "k \<in> {Light, Dark}" for k
    using that applyTheme_marker [OF assms(1) t, of k] by auto
  ultimately show ?thesis
    using assms(2) by (simp add: marker_reflects_def)
qed

lemma initialize_marker_reflects:
  assumes "has_window w"
  shows "marker_reflects (initialize p w)"
proof -
  have "resolvedTheme (initialize p w) \<in> {Light, Dark}"
    using initialize_resolved [OF assms, of p] resolved_light_or_dark by simp
  then show ?thesis
    using initialize_markers [OF assms, of Light p] initialize_markers [OF assms, of Dark p]
    by (simp add: marker_reflects_def)
qed

lemma setTheme_marker_reflects:
  assumes "has_window w"
  shows "marker_reflects (setTheme p t w)"
proof -
  have "resolvedTheme (setTheme p t w) \<in> {Light, Dark}"
    using setTheme_resolved [OF assms, of p t] resolved_light_or_dark by simp
  then show ?thesis
    using setTheme_markers [OF assms, of Light p t] setTheme_markers [OF assms, of Dark p t]
    by (simp add: marker_reflects_def)
qed

lemma handleSystemThemeChange_marker_reflects:
  assumes "has_window w"
  shows "marker_reflects (handleSystemThemeChange m w)"
proof -
  have "resolvedTheme (handleSystemThemeChange m w) \<in> {Light, Dark}"
    using assms by (simp add: handleSystemThemeChange_window)
  then show ?thesis
    using handleSystemThemeChange_markers [OF assms, of Light m]
      handleSystemThemeChange_markers [OF assms, of Dark m]
    by (simp add: marker_reflects_def)
qed

lemma runCleanup_marker_reflects: "marker_reflects (runCleanup w) = marker_reflects w"
  by (rule marker_reflects_cong)
     (simp_all add: runCleanup_def unregister_listener_def split: option.splits)

lemma rerender_marker_reflects:
  assumes "marker_reflects w" "rerender previous w = Inr w'"
  shows "marker_reflects w'"
proof (cases "theme w = previous")
  case True
  with assms show ?thesis by (simp add: rerender_def)
next
  case False
  with assms(2) have e: "runEffect (theme w) (runCleanup w) = Inr w'" by (simp add: rerender_def)
  have "marker_reflects w' = marker_reflects (runCleanup w)"
    using runEffect_frame(8,9) [OF e] by (intro marker_reflects_cong) simp_all
  with assms(1) show ?thesis by (simp add: runCleanup_marker_reflects)
qed

lemma osChange_marker_reflects:
  assumes "has_window w" "marker_reflects w"
  shows "marker_reflects (osChange m w)"
proof -
  have "marker_reflects (fold (call_listener m) ls v)"
    if "has_window v" "marker_reflects v" for ls v
    using that
  proof (induction ls arbitrary: v)
    case Nil
    then show ?case by simp
  next
    case (Cons l ls)
    have "has_window (call_listener m l v)"
      using Cons.prems(1) by (simp add: call_listener_cases handleSystemThemeChange_window)
    moreover have "marker_reflects (call_listener m l v)"
      using Cons.prems
      by (simp add: call_listener_cases handleSystemThemeChange_marker_reflects)
    ultimately show ?case using Cons.IH [of "call_listener m l v"] by simp
  qed
  moreover have "marker_reflects (w\<lparr>mediaQuery := (mediaQuery w)\<lparr>matches := m\<rparr>\<rparr>)"
    using assms(2) by (simp add: marker_reflects_def has_marker_def)
  ultimately show ?thesis
    using assms(1) by (simp add: osChange_def)
qed

lemma dispatch_marker_reflects:
  assumes "has_window w" "marker_reflects w" "dispatch p ev w = Inr w'"
  shows "has_window w' \<and> marker_reflects w'"
proof (cases ev)
  case (OSChange m)
  with assms show ?thesis
    by (auto simp: dispatch_def osChange_frame osChange_marker_reflects)
next
  case (SetTheme t)
  with assms(3) have r: "rerender (theme w) (setTheme p t w) = Inr w'"
    by (simp add: dispatch_def)
  have "has_window w'"
    using rerender_frame(1) [OF r] setTheme_frame(1) [OF assms(1), of p t] by simp
  moreover have "marker_reflects w'"
    using rerender_marker_reflects [OF setTheme_marker_reflects [OF assms(1)] r] .
  ultimately show ?thesis ..
qed

lemma run_marker_reflects:
  "has_window w \<Longrightarrow> marker_reflects w \<Longrightarrow> run p evs w = Inr w' \<Longrightarrow> marker_reflects w'"
proof (induction evs arbitrary: w)
  case Nil
  then show ?case by simp
next
  case (Cons ev evs)
  from Cons.prems(3) obtain w1 where d: "dispatch p ev w = Inr w1" and r: "run p evs w1 = Inr w'"
    by (cases "dispatch p ev w") simp_all
  from dispatch_marker_reflects [OF Cons.prems(1,2) d] Cons.IH [of w1] r show ?case by simp
qed

lemma mount_marker_reflects:
  assumes "has_window w" "mount p w = Inr w'"
  shows "has_window w' \<and> marker_reflects w'"
proof -
  let ?w0 = "w\<lparr>theme := defaultTheme p, resolvedTheme := Light, cleanup := None\<rparr>"
  have hw0: "has_window ?w0" using assms(1) by simp
  from assms(2) obtain w2 where e: "runEffect (defaultTheme p) (initialize p ?w0) = Inr w2"
      and r: "rerender (defaultTheme p) w2 = Inr w'"
    by (cases "runEffect (defaultTheme p) (initialize p ?w0)") (simp_all add: mount_def Let_def)
  have "marker_reflects w2 = marker_reflects (initialize p ?w0)"
    using runEffect_frame(8,9) [OF e] by (intro marker_reflects_cong) simp_all
  then have m2: "marker_reflects w2"
    using initialize_marker_reflects [OF hw0, of p] by simp
  have "has_window w2"
    using runEffect_frame(1) [OF e] initialize_frame(1) [OF hw0, of p] by simp
  then have "has_window w'" using rerender_frame(1) [OF r] by simp
  with rerender_marker_reflects [OF m2 r] show ?thesis by simp
qed

lemma session_marker_reflects:
  assumes "has_window w" "session p evs w = Inr w'"
  shows "marker_reflects w'"
proof -
  from assms(2) obtain w1 where m: "mount p w = Inr w1" and r: "run p evs w1 = Inr w'"
    by (cases "mount p w") (simp_all add: session_def)
  from mount_marker_reflects [OF assms(1) m] run_marker_reflects [OF _ _ r] show ?thesis by simp
qed

subsection \<open>Marking the render target\<close>

text \<open>
  Claim C7. Whenever a theme is applied in a browser (by the initialisation, by
  \<open>setTheme\<close> or by the operating-system callback), \<^verbatim>\<open>applyTheme\<close> takes the old
  marker away and puts the new one in two adjacent calls of one synchronous handler,
  which nothing can run between. The points of the single-threaded model are the states
  between handlers, and none of them carries both markers or neither: after
  \<open>applyTheme\<close> exactly the marker of the applied theme is present and \<open>resolvedTheme\<close>
  is that theme; after the initialisation, after \<open>setTheme\<close> (which, called with a light
  or dark literal, resolves to it) and after the callback the marker present is exactly
  that of \<open>resolvedTheme\<close>; and every state a session reaches, after mounting and any
  sequence of \<open>setTheme\<close> calls and colour scheme changes, carries exactly one of the two
  markers, the one of \<open>resolvedTheme\<close>.
\<close>

theorem marker_swapped_to_resolved_theme:
  assumes "has_window w" "t \<in> {Light, Dark}"
  shows
    "(\<forall>k \<in> {Light, Dark}. has_marker k (applyTheme t w) \<longleftrightarrow> k = t)
     \<and> resolvedTheme (applyTheme t w) = t
     \<and> (\<forall>k \<in> {Light, Dark}.
          has_marker k (initialize p w) \<longleftrightarrow> k = resolvedTheme (initialize p w))
     \<and> (\<forall>k \<in> {Light, Dark}.
          has_marker k (setTheme p t' w) \<longleftrightarrow> k = resolvedTheme (setTheme p t' w))
     \<and> resolvedTheme (setTheme p t w) = t
     \<and> (\<forall>k \<in> {Light, Dark}.
          has_marker k (handleSystemThemeChange m w)
            \<longleftrightarrow> k = resolvedTheme (handleSystemThemeChange m w))
     \<and> (\<forall>w'. session p evs w = Inr w'
          \<longrightarrow> resolvedTheme w' \<in> {Light, Dark}
            \<and> (\<forall>k \<in> {Light, Dark}. has_marker k w' \<longleftrightarrow> k = resolvedTheme w')
            \<and> has_marker Light w' \<noteq> has_marker Dark w')"
proof -
  note hw = assms(1)
  have t: "t \<noteq> System" using assms(2) by auto
  have c1: "\<forall>k \<in> {Light, Dark}. has_marker k (applyTheme t w) \<longleftrightarrow> k = t"
    using hw t by (simp add: applyTheme_marker)
  have c2: "resolvedTheme (applyTheme t w) = t"
    using hw by (simp add: applyTheme_window)
  have c3: "\<forall>k \<in> {Light, Dark}.
          has_marker k (initialize p w) \<longleftrightarrow> k = resolvedTheme (initialize p w)"
    using initialize_markers [OF hw, of Light p] initialize_markers [OF hw, of Dark p] by simp
  have c4: "\<forall>k \<in> {Light, Dark}.
          has_marker k (setTheme p t' w) \<longleftrightarrow> k = resolvedTheme (setTheme p t' w)"
    using setTheme_markers [OF hw, of Light p t'] setTheme_markers [OF hw, of Dark p t'] by simp
  have c5: "resolvedTheme (setTheme p t w) = t"
    using hw t by (simp add: setTheme_resolved resolveTheme_literal)
  have c6: "\<forall>k \<in> {Light, Dark}.
          has_marker k (handleSystemThemeChange m w)
            \<longleftrightarrow> k = resolvedTheme (handleSystemThemeChange m w)"
    using handleSystemThemeChange_markers [OF hw, of Light m]
      handleSystemThemeChange_markers [OF hw, of Dark m] by simp
  have c7: "\<forall>w'. session p evs w = Inr w'
          \<longrightarrow> resolvedTheme w' \<in> {Light, Dark}
            \<and> (\<forall>k \<in> {Light, Dark}. has_marker k w' \<longleftrightarrow> k = resolvedTheme w')
            \<and> has_marker Light w' \<noteq> has_marker Dark w'"
  proof (intro allI impI)
    fix w' assume "session p evs w = Inr w'"
    from session_marker_reflects [OF hw this]
    show "resolvedTheme w' \<in> {Light, Dark}
            \<and> (\<forall>k \<in> {Light, Dark}. has_marker k w' \<longleftrightarrow> k = resolvedTheme w')
            \<and> has_marker Light w' \<noteq> has_marker Dark w'"
      by (auto simp: marker_reflects_def)
  qed
  show ?thesis
    by (intro conjI) (fact c1, fact c2, fact c3, fact c4, fact c5, fact c6, fact c7)
qed

theorem marker_swapped_to_resolved_theme_witness:
  "has_window light_page \<and> Dark \<in> {Light, Dark}
   \<and> has_marker Light light_page \<and> \<not> has_marker Dark light_page
   \<and> has_marker Dark (applyTheme Dark light_page)
   \<and> \<not> has_marker Light (applyTheme Dark light_page)
   \<and> resolvedTheme (applyTheme Dark light_page) = Dark
   \<and> resolvedTheme (setTheme site_props Dark light_page) = Dark
   \<and> has_marker Dark (setTheme site_props Dark light_page)
   \<and> \<not> has_marker Light (setTheme site_props Dark light_page)
   \<and> (\<exists>w. session site_props [SetTheme Light, OSChange False, SetTheme Dark] light_page = Inr w
          \<and> has_marker Light w \<noteq> has_marker Dark w
          \<and> (has_marker Dark w \<longleftrightarrow> resolvedTheme w = Dark))"
proof -
  note A = marker_swapped_to_resolved_theme [of light_page Dark site_props Dark True
      "[SetTheme Light, OSChange False, SetTheme Dark]", simplified]
  have i: "has_marker Light light_page \<and> \<not> has_marker Dark light_page"
    by (simp add: has_marker_def)
  have a: "has_marker Dark (applyTheme Dark light_page)
      \<and> \<not> has_marker Light (applyTheme Dark light_page)
      \<and> resolvedTheme (applyTheme Dark light_page) = Dark"
    using A by blast
  have b: "resolvedTheme (setTheme site_props Dark light_page) = Dark"
    using A by blast
  have c: "has_marker Dark (setTheme site_props Dark light_page)
      \<and> \<not> has_marker Light (setTheme site_props Dark light_page)"
    using A b by (metis theme.distinct(1))
  obtain w where s: "session site_props [SetTheme Light, OSChange False, SetTheme Dark] light_page = Inr w"
    using session_returns [of light_page site_props] by auto
  have d: "has_marker Light w \<noteq> has_marker Dark w
          \<and> (has_marker Dark w \<longleftrightarrow> resolvedTheme w = Dark)"
    using A s by metis
  show ?thesis
    using i a b c s d by auto
qed

subsection \<open>Subscribing where the media query is missing\<close>

text \<open>
  Claim C9 says that where neither registration method is available, subscribing is a
  no-op that does not throw. The lemmas above give the claim's other parts: the modern
  method is tried first and the legacy one second (\<open>runEffect_modern\<close>,
  \<open>runEffect_legacy\<close>), a media query object without either method leaves everything as
  it was (\<open>runEffect_no_api\<close>), and the clean-up removes the registered callback, after
  which changes are ignored (\<open>unsubscribe_removes_registered_listener\<close>,
  \<open>unsubscribed_ignores_os_changes\<close>). But the effect obtains the media query by calling
  \<^verbatim>\<open>window.matchMedia\<close> before its \<^verbatim>\<open>try\<close> block: in a browser without
  \<^verbatim>\<open>matchMedia\<close>, with the preference \<open>System\<close>, the effect throws and so does mounting
  the provider, although \<open>getSystemTheme\<close> recovers from the same call.
\<close>

theorem subscribe_without_matchMedia_throws:
  "has_window no_matchMedia \<and> theme no_matchMedia = System
   \<and> \<not> has_addEventListener (mediaQuery no_matchMedia)
   \<and> \<not> has_addListener (mediaQuery no_matchMedia)
   \<and> systemChangeEffect System no_matchMedia =
        Inl (HostError ''TypeError: window.matchMedia is not a function'')
   \<and> mount site_props no_matchMedia =
        Inl (HostError ''TypeError: window.matchMedia is not a function'')
   \<and> fst (getSystemTheme no_matchMedia) = Light"
proof -
  let ?e = "HostError ''TypeError: window.matchMedia is not a function''"
  let ?w0 = "no_matchMedia\<lparr>theme := defaultTheme site_props, resolvedTheme := Light,
      cleanup := None\<rparr>"
  have a: "systemChangeEffect System no_matchMedia = Inl ?e"
    by (simp add: systemChangeEffect_def)
  have hw: "has_window ?w0" by simp
  have "runEffect (defaultTheme site_props) (initialize site_props ?w0) = Inl ?e"
    using initialize_frame(1,4) [OF hw, of site_props] by (simp add: runEffect_throws)
  then have b: "mount site_props no_matchMedia = Inl ?e"
    by (simp add: mount_def Let_def)
  have c: "fst (getSystemTheme no_matchMedia) = Light"
    by (simp add: getSystemTheme_def)
  show ?thesis using a b c by simp
qed

theorem subscribe_without_matchMedia_throws_witness:
  "has_window no_matchMedia \<and> theme no_matchMedia = System
   \<and> systemChangeEffect System no_matchMedia \<noteq> Inr (None, no_matchMedia)
   \<and> mount site_props no_matchMedia \<noteq> Inr (initialize site_props no_matchMedia)"
  using subscribe_without_matchMedia_throws by simp

lemma mount_throws_with_default_system:
  assumes "has_window w" "matchMedia_failure w = Some e" "defaultTheme p = System"
  shows "mount p w = Inl e"
proof -
  let ?w0 = "w\<lparr>theme := defaultTheme p, resolvedTheme := Light, cleanup := None\<rparr>"
  have hw0: "has_window ?w0" using assms(1) by simp
  have "runEffect System (initialize p ?w0) = Inl e"
    using initialize_frame(1,4) [OF hw0, of p] assms(2) by (simp add: runEffect_throws)
  then show ?thesis
    using assms(3) by (simp add: mount_def Let_def)
qed

lemma mount_throws_with_stored_system:
  assumes "has_window w" "matchMedia_failure w = Some e"
    and "getItem_failure w = None" "storage w (storageKey p) = Some ''system''"
  shows "mount p w = Inl e"
proof (cases "defaultTheme p = System")
  case True
  with assms(1,2) show ?thesis by (rule mount_throws_with_default_system)
next
  case False
  let ?w0 = "w\<lparr>theme := defaultTheme p, resolvedTheme := Light, cleanup := None\<rparr>"
  let ?w1 = "initialize p ?w0"
  have hw0: "has_window ?w0" using assms(1) by simp
  note f = initialize_frame [OF hw0, of p]
  have "getStoredTheme p ?w0 = (Some System, ?w0)"
    using getStoredTheme_valid [of ?w0 p System] assms by simp
  then have th: "theme ?w1 = System"
    using initialize_theme [OF hw0, of p] by simp
  have e1: "runEffect (defaultTheme p) ?w1 = Inr (?w1\<lparr>cleanup := None\<rparr>)"
    using False by (simp add: runEffect_skip)
  have "runEffect System (runCleanup (?w1\<lparr>cleanup := None\<rparr>)) = Inl e"
    using f(1,4) assms(2) by (intro runEffect_throws) simp_all
  then have "rerender (defaultTheme p) (?w1\<lparr>cleanup := None\<rparr>) = Inl e"
    using False th by (simp add: rerender_def)
  then show ?thesis
    by (simp add: mount_def Let_def e1)
qed

lemma setTheme_system_throws:
  assumes "has_window w" "matchMedia_failure w = Some e" "theme w \<noteq> System"
  shows "dispatch p (SetTheme System) w = Inl e"
proof -
  note f = setTheme_frame [OF assms(1), of p System]
  have "runEffect System (runCleanup (setTheme p System w)) = Inl e"
    using f(1,4) assms(2) by (intro runEffect_throws) simp_all
  then show ?thesis
    using assms(3) setTheme_theme [OF assms(1), of p System]
    by (simp add: dispatch_def rerender_def)
qed

subsection \<open>The failing query reaches the consumer\<close>

text \<open>
  Claim C6 says that when the query of the operating system throws or is unsupported, a
  warning is logged, the resolution falls back to light, and the failure is never
  surfaced to the consumer. The resolution does log the warning and fall back. But the
  system-change effect makes the same query before its \<^verbatim>\<open>try\<close> block, so in the same
  browser the failure leaves the component: mounting the provider throws the query's
  error when the default preference is \<open>System\<close> or a stored \<^verbatim>\<open>'system'\<close> is adopted, and
  so does \<open>setTheme\<close> with \<open>System\<close> from another preference.
\<close>

theorem os_query_failure_reaches_consumer:
  assumes "has_window w" "matchMedia_failure w = Some e"
  shows
    "resolveTheme System w =
       (Light, console_warn ''System theme detection failed, falling back to light theme:'' e w)
     \<and> (defaultTheme p = System \<longrightarrow> mount p w = Inl e)
     \<and> (getItem_failure w = None \<and> storage w (storageKey p) = Some ''system''
        \<longrightarrow> mount p w = Inl e)
     \<and> (theme w \<noteq> System \<longrightarrow> dispatch p (SetTheme System) w = Inl e)"
proof -
  have c1: "resolveTheme System w =
       (Light, console_warn ''System theme detection failed, falling back to light theme:'' e w)"
    using assms by (rule resolveTheme_system_failure)
  have c2: "defaultTheme p = System \<longrightarrow> mount p w = Inl e"
    using assms by (simp add: mount_throws_with_default_system)
  have c3: "getItem_failure w = None \<and> storage w (storageKey p) = Some ''system''
        \<longrightarrow> mount p w = Inl e"
    using assms by (simp add: mount_throws_with_stored_system)
  have c4: "theme w \<noteq> System \<longrightarrow> dispatch p (SetTheme System) w = Inl e"
    using assms by (simp add: setTheme_system_throws)
  show ?thesis
    by (intro conjI) (fact c1, fact c2, fact c3, fact c4)
qed

theorem os_query_failure_reaches_consumer_witness:
  "has_window no_matchMedia
   \<and> matchMedia_failure no_matchMedia =
        Some (HostError ''TypeError: window.matchMedia is not a function'')
   \<and> fst (resolveTheme System no_matchMedia) = Light
   \<and> session site_props [] no_matchMedia =
        Inl (HostError ''TypeError: window.matchMedia is not a function'')
   \<and> dispatch site_props (SetTheme System) (no_matchMedia\<lparr>theme := Dark\<rparr>) =
        Inl (HostError ''TypeError: window.matchMedia is not a function'')"
proof -
  let ?e = "HostError ''TypeError: window.matchMedia is not a function''"
  note A = os_query_failure_reaches_consumer [of no_matchMedia ?e site_props, simplified]
  note B = os_query_failure_reaches_consumer [of "no_matchMedia\<lparr>theme := Dark\<rparr>" ?e site_props,
      simplified]
  have a: "fst (resolveTheme System no_matchMedia) = Light"
    using A by (metis fst_conv)
  have b: "session site_props [] no_matchMedia = Inl ?e"
    using A by (simp add: session_def)
  have c: "dispatch site_props (SetTheme System) (no_matchMedia\<lparr>theme := Dark\<rparr>) = Inl ?e"
    using B by blast
  show ?thesis using a b c by simp
qed

subsection \<open>Calling the hook outside and inside a provider\<close>

text \<open>
  Claim C10. \<open>useTheme\<close> called with no enclosing provider throws an \<^verbatim>\<open>Error\<close> with the
  message \<^verbatim>\<open>useTheme must be used within a ThemeProvider\<close>; inside a provider it
  returns the provider's value, which is the current \<open>theme\<close>, \<open>setTheme\<close> and
  \<open>resolvedTheme\<close>.
\<close>

theorem useTheme_outside_and_inside_provider:
  "useTheme [] = Inl (Error ''useTheme must be used within a ThemeProvider'')
   \<and> useTheme (c # outer) = Inr c
   \<and> useTheme (contextValue p w # outer) =
       Inr \<lparr>ctx_theme = theme w, ctx_setTheme = setTheme p, ctx_resolvedTheme = resolvedTheme w\<rparr>"
  by (simp add: useTheme_def useContext_def contextValue_def)

end
